theory Spec2Isabelle
  imports Complex_Main "HOL-Library.List_Lexorder" "HOL-Library.Char_ord"
    "HOL-Library.Product_Lexorder"
begin

section \<open>Python values and strings\<close>

text \<open>
  Text is ASCII: \<open>str.lower\<close> maps \<open>A\<close>..\<open>Z\<close> to \<open>a\<close>..\<open>z\<close> and \<open>str.strip\<close> removes the
  ASCII white space of Python (codes 9 to 13, 28 to 32) at both ends. Text outside ASCII
  is not modelled.
\<close>

definition lower_char :: "char \<Rightarrow> char" where
  "lower_char c =
     (let n = (of_char c :: nat) in if 65 \<le> n \<and> n \<le> 90 then char_of (n + 32) else c)"

definition lower :: "string \<Rightarrow> string" where
  "lower s = map lower_char s"

definition is_space :: "char \<Rightarrow> bool" where
  "is_space c = (let n = (of_char c :: nat) in (9 \<le> n \<and> n \<le> 13) \<or> (28 \<le> n \<and> n \<le> 32))"

definition strip :: "string \<Rightarrow> string" where
  "strip s = rev (dropWhile is_space (rev (dropWhile is_space s)))"

text \<open>
  \<open>a or b\<close> on strings, where a missing key, \<open>None\<close> and the empty string are all
  modelled by the empty string (all three are falsy and \<open>str(...)\<close> is applied after).
\<close>

definition py_or :: "string \<Rightarrow> string \<Rightarrow> string" where
  "py_or a b = (if a = [] then b else a)"

text \<open>The exceptions that leave a function of the bot.\<close>

datatype exn = ValueError | OverflowError | KeyError | OtherException

datatype 'a outcome = Raises exn | Returns 'a

subsection \<open>Floats\<close>

text \<open>
  A Python float is an IEEE 754 double: a finite value (\<open>-0.0\<close> is not told apart from
  \<open>0.0\<close>), an infinity or NaN.
\<close>

datatype pyfloat = Finite real | PosInf | NegInf | NaN

text \<open>
  Rounding a real to the nearest double, ties to even: the spacing of the doubles around
  \<open>x\<close> is \<open>2\<close> to the power \<open>e - 52\<close>, where \<open>e\<close> is the binary exponent of \<open>x\<close>, at
  least \<open>-1022\<close>; a result of magnitude \<open>2 ^ 1024\<close> or more is an infinity.
\<close>

definition double_ulp :: "real \<Rightarrow> real" where
  "double_ulp x = 2 powr (real_of_int (max \<lfloor>log 2 \<bar>x\<bar>\<rfloor> (- 1022)) - 52)"

definition round_half_even :: "real \<Rightarrow> int" where
  "round_half_even q =
     (let f = \<lfloor>q\<rfloor>
      in if q - of_int f < 1 / 2 then f
         else if 1 / 2 < q - of_int f then f + 1
         else if even f then f else f + 1)"

definition round_to_double :: "real \<Rightarrow> pyfloat" where
  "round_to_double x =
     (if x = 0 then Finite 0
      else
        (let y = of_int (round_half_even (x / double_ulp x)) * double_ulp x
         in if 2 powr 1024 \<le> \<bar>y\<bar> then (if 0 < x then PosInf else NegInf) else Finite y))"

text \<open>\<open>a - b\<close> on floats.\<close>

fun fsub :: "pyfloat \<Rightarrow> pyfloat \<Rightarrow> pyfloat" where
  "fsub NaN b = NaN"
| "fsub a NaN = NaN"
| "fsub (Finite a) (Finite b) = round_to_double (a - b)"
| "fsub (Finite a) PosInf = NegInf"
| "fsub (Finite a) NegInf = PosInf"
| "fsub PosInf PosInf = NaN"
| "fsub PosInf b = PosInf"
| "fsub NegInf NegInf = NaN"
| "fsub NegInf b = NegInf"

text \<open>\<open>a < b\<close> and \<open>a <= b\<close> on floats: false as soon as one side is NaN.\<close>

fun flt :: "pyfloat \<Rightarrow> pyfloat \<Rightarrow> bool" where
  "flt NaN b = False"
| "flt a NaN = False"
| "flt (Finite a) (Finite b) = (a < b)"
| "flt NegInf NegInf = False"
| "flt NegInf b = True"
| "flt a NegInf = False"
| "flt PosInf b = False"
| "flt a PosInf = True"

fun fle :: "pyfloat \<Rightarrow> pyfloat \<Rightarrow> bool" where
  "fle NaN b = False"
| "fle a NaN = False"
| "fle (Finite a) (Finite b) = (a \<le> b)"
| "fle NegInf b = True"
| "fle a PosInf = True"
| "fle a b = False"

text \<open>
  \<open>int(x)\<close> on a float truncates towards zero; it raises \<open>ValueError\<close> on NaN and
  \<open>OverflowError\<close> on an infinity.
\<close>

fun to_int :: "pyfloat \<Rightarrow> exn + int" where
  "to_int (Finite r) = Inr (if 0 \<le> r then \<lfloor>r\<rfloor> else \<lceil>r\<rceil>)"
| "to_int NaN = Inl ValueError"
| "to_int PosInf = Inl OverflowError"
| "to_int NegInf = Inl OverflowError"

text \<open>
  A stat value as the upstream JSON delivers it: an integer of any size (\<open>True\<close> and
  \<open>False\<close> count as 1 and 0), a float (the JSON decoder also yields \<open>NaN\<close> and the
  infinities), a string, which \<open>float\<close> either parses to the given float or rejects
  with \<open>ValueError\<close>, or anything else (\<open>None\<close>, a list, a dict), on which \<open>float\<close>
  raises \<open>TypeError\<close>.
\<close>

datatype raw = RInt int | RFloat pyfloat | RText "pyfloat option" | ROther

text \<open>
  \<open>float(v)\<close> under \<open>except (TypeError, ValueError): continue\<close>: the value, the skip, or
  the \<open>OverflowError\<close> of an integer too large for a float, which the handler does not
  catch.
\<close>

datatype conv = Value pyfloat | NotNumeric | TooLarge

fun to_float :: "raw \<Rightarrow> conv" where
  "to_float (RInt n) = (case round_to_double (of_int n) of Finite r \<Rightarrow> Value (Finite r) | _ \<Rightarrow> TooLarge)"
| "to_float (RFloat f) = Value f"
| "to_float (RText (Some f)) = Value f"
| "to_float (RText None) = NotNumeric"
| "to_float ROther = NotNumeric"

section \<open>Data model\<close>

text \<open>
  The rank of a row: absent (\<open>None\<close>), a value that \<open>int\<close> converts to the given
  integer, or a value on which \<open>int\<close> raises the given exception.
\<close>

datatype rank_raw = RankNone | Rank int | RankBad exn

text \<open>
  A leaderboard row (a dict of the upstream API). An absent text field is the empty
  string, except \<open>username\<close>, whose absence is told apart; \<open>stats\<close> is a dict, listed in
  its order.
\<close>

record row =
  row_name :: string
  row_clanName :: string
  row_steamId :: string
  row_username :: "string option"
  row_rank :: rank_raw
  row_stats :: "(string \<times> raw) list"

text \<open>
  A row of table \<open>clan_metric_history\<close>. The column \<open>value\<close> is a \<open>REAL\<close> or \<open>NULL\<close>;
  SQLite stores a NaN as \<open>NULL\<close>. The columns \<open>ts\<close> and \<open>rank\<close> are 64-bit integers:
  binding a Python integer outside this range raises \<open>OverflowError\<close>.
\<close>

definition sqlite_integer :: "int \<Rightarrow> bool" where
  "sqlite_integer i \<longleftrightarrow> - (2 ^ 63) \<le> i \<and> i < 2 ^ 63"

record snapshot =
  snap_metric_key :: string
  snap_clan_name :: string
  snap_ts :: int
  snap_rank :: "int option"
  snap_value :: "pyfloat option"

text \<open>
  An alert handed to \<open>alert_channel.send\<close>, by the values its text is built from: the
  names, \<open>int(delta)\<close>, \<open>int(current_val)\<close> and the rank. The time stamp and the role
  mention of the text are not modelled.
\<close>

datatype alert =
    WatchAlert string string string int int rank_raw
  | PlayerAlert string string string string int int rank_raw
  | SpikeAlert string string int int rank_raw

text \<open>
  The part of \<open>settings\<close> the watchers read; the dict \<open>player_clan_overrides\<close> is
  an association list (looked up with \<open>map_of\<close>).
\<close>

record settings =
  clan_name :: string
  player_clan_overrides :: "(string \<times> string) list"

text \<open>
  The process-wide state: the three last-value caches, the tracking flag, the tables
  \<open>watch_clans\<close>, \<open>watch_players\<close> and \<open>clan_metric_history\<close> (in insertion order), and
  the alerts handed to the channel so far, in order.
\<close>

record bot_state =
  WATCH_CLAN_LAST_VALUES :: "(string \<times> string \<times> string) \<rightharpoonup> pyfloat"
  WATCH_PLAYER_LAST_VALUES :: "(string \<times> string \<times> string) \<rightharpoonup> pyfloat"
  LAST_CLAN_METRIC_VALUES :: "(string \<times> string) \<rightharpoonup> pyfloat"
  tracking_enabled :: bool
  watch_clans :: "string set"
  watch_players :: "string set"
  clan_metric_history :: "snapshot list"
  outbox :: "alert list"

section \<open>Watch registry (storage.py)\<close>

text \<open>
  Table \<open>watch_clans\<close> has \<open>clan_name\<close> as primary key and is written with
  \<open>INSERT OR IGNORE\<close> and \<open>DELETE\<close>: a set of names. None of these functions
  raises on a duplicate or an absent name, so they return the new state.
\<close>

definition add_watch_clan :: "string \<Rightarrow> bot_state \<Rightarrow> bot_state" where
  "add_watch_clan clan s =
     (if clan = [] then s else s\<lparr>watch_clans := insert (lower clan) (watch_clans s)\<rparr>)"

definition remove_watch_clan :: "string \<Rightarrow> bot_state \<Rightarrow> bot_state" where
  "remove_watch_clan clan s =
     (if clan = [] then s else s\<lparr>watch_clans := watch_clans s - {lower clan}\<rparr>)"

definition get_watch_clans :: "bot_state \<Rightarrow> string set" where
  "get_watch_clans s = watch_clans s"

definition add_watch_player :: "string \<Rightarrow> bot_state \<Rightarrow> bot_state" where
  "add_watch_player steam_id s =
     (if steam_id = [] then s else s\<lparr>watch_players := insert steam_id (watch_players s)\<rparr>)"

definition remove_watch_player :: "string \<Rightarrow> bot_state \<Rightarrow> bot_state" where
  "remove_watch_player steam_id s =
     (if steam_id = [] then s else s\<lparr>watch_players := watch_players s - {steam_id}\<rparr>)"

definition get_watch_players :: "bot_state \<Rightarrow> string set" where
  "get_watch_players s = watch_players s"

section \<open>Delta engine (watchers.py)\<close>

text \<open>
  The three statements every consumer runs on a numeric value
  (watchers.py 109-112, 193-196, 278-280):
  \<^verbatim>\<open>last_val = CACHE.get(cache_key)\<close>,
  \<^verbatim>\<open>delta = 0.0 if last_val is None else current_val - last_val\<close>,
  \<^verbatim>\<open>CACHE[cache_key] = current_val\<close>.
\<close>

definition observe :: "('k \<rightharpoonup> pyfloat) \<Rightarrow> 'k \<Rightarrow> pyfloat \<Rightarrow> pyfloat \<times> ('k \<rightharpoonup> pyfloat)" where
  "observe cache cache_key current_val =
     (let last_val = cache cache_key;
          delta = (case last_val of None \<Rightarrow> Finite 0 | Some l \<Rightarrow> fsub current_val l)
      in (delta, cache(cache_key \<mapsto> current_val)))"

text \<open>
  \<open>await alert_channel.send(msg)\<close> inside \<open>try\<close>: the alert is handed to the channel;
  \<open>send_ok i\<close> tells whether the \<open>i\<close>-th send of the process succeeds, and only then
  is \<open>alerts_sent\<close> incremented. A failed send is logged and the loop goes on.
\<close>

definition send_alert :: "(nat \<Rightarrow> bool) \<Rightarrow> alert \<Rightarrow> nat \<Rightarrow> bot_state \<Rightarrow> nat outcome \<times> bot_state" where
  "send_alert send_ok msg alerts_sent s =
     (Returns (if send_ok (length (outbox s)) then alerts_sent + 1 else alerts_sent),
      s\<lparr>outbox := outbox s @ [msg]\<rparr>)"

text \<open>
  Building the message and sending it (lines 117-134, 201-218, 289-305). The text holds
  \<open>int(delta)\<close> and \<open>int(current_val)\<close>, evaluated in this order before the \<open>try\<close>: an
  exception of \<open>int\<close> leaves the function, and no send is attempted.
\<close>

definition build_and_send ::
  "(nat \<Rightarrow> bool) \<Rightarrow> (int \<Rightarrow> int \<Rightarrow> alert) \<Rightarrow> pyfloat \<Rightarrow> pyfloat \<Rightarrow> nat \<Rightarrow> bot_state
     \<Rightarrow> nat outcome \<times> bot_state" where
  "build_and_send send_ok msg delta current_val alerts_sent s =
     (case to_int delta of
        Inl e \<Rightarrow> (Raises e, s)
      | Inr d \<Rightarrow>
          (case to_int current_val of
             Inl e \<Rightarrow> (Raises e, s)
           | Inr c \<Rightarrow> send_alert send_ok (msg d c) alerts_sent s))"

text \<open>
  \<^verbatim>\<open>str(row.get("name") or row.get("clanName") or "").strip()\<close>
  (lines 89 and 253).
\<close>

definition clan_name_raw_of :: "row \<Rightarrow> string" where
  "clan_name_raw_of r = strip (py_or (row_name r) (py_or (row_clanName r) []))"

text \<open>
  The number of sends that succeeded between two states of a run: the sends are
  numbered by the length of the outbox at the time of the call.
\<close>

definition sent_between :: "(nat \<Rightarrow> bool) \<Rightarrow> bot_state \<Rightarrow> bot_state \<Rightarrow> nat" where
  "sent_between send_ok s s' = length (filter send_ok [length (outbox s)..<length (outbox s')])"

subsection \<open>Clan all-stats watch\<close>

text \<open>
  The body of the inner loop of \<open>track_watch_clan_all_stats\<close> (lines 101-134). The
  accumulator is \<open>alerts_sent\<close>, or the exception that has left the function, and the
  state; once an exception is raised no further step runs.
\<close>

definition clan_stat_step ::
  "(nat \<Rightarrow> bool) \<Rightarrow> string \<Rightarrow> string \<Rightarrow> rank_raw \<Rightarrow> string \<times> raw
     \<Rightarrow> nat outcome \<times> bot_state \<Rightarrow> nat outcome \<times> bot_state" where
  "clan_stat_step send_ok grp clan_name_raw rank item acc =
     (case item of (stat_key, v) \<Rightarrow>
       (case acc of
          (Raises e, s) \<Rightarrow> acc
        | (Returns alerts_sent, s) \<Rightarrow>
            (case to_float v of
               NotNumeric \<Rightarrow> acc
             | TooLarge \<Rightarrow> (Raises OverflowError, s)
             | Value current_val \<Rightarrow>
                 (case observe (WATCH_CLAN_LAST_VALUES s) (grp, lower clan_name_raw, stat_key)
                         current_val of
                    (delta, cache') \<Rightarrow>
                      (let s1 = s\<lparr>WATCH_CLAN_LAST_VALUES := cache'\<rparr>
                       in if fle delta (Finite 0) then (Returns alerts_sent, s1)
                          else build_and_send send_ok
                                 (\<lambda>d c. WatchAlert clan_name_raw stat_key grp d c rank)
                                 delta current_val alerts_sent s1)))))"

text \<open>
  The body of the outer loop (lines 88-134). The flag \<open>found_any\<close>, which only decides
  a closing debug line, is left out.
\<close>

definition clan_row_step ::
  "(nat \<Rightarrow> bool) \<Rightarrow> string \<Rightarrow> string set \<Rightarrow> row
     \<Rightarrow> nat outcome \<times> bot_state \<Rightarrow> nat outcome \<times> bot_state" where
  "clan_row_step send_ok grp watched_clans r acc =
     (case acc of
        (Raises e, s) \<Rightarrow> acc
      | (Returns alerts_sent, s) \<Rightarrow>
          (let clan_name_raw = clan_name_raw_of r
           in if clan_name_raw = [] then acc
              else if lower clan_name_raw \<notin> watched_clans then acc
              else fold (clan_stat_step send_ok grp clan_name_raw (row_rank r)) (row_stats r) acc))"

text \<open>
  \<open>track_watch_clan_all_stats\<close>: the result is \<open>alerts_sent\<close>, or the exception that
  leaves the function, and the state.
\<close>

definition track_watch_clan_all_stats ::
  "(nat \<Rightarrow> bool) \<Rightarrow> string \<Rightarrow> row list \<Rightarrow> bot_state \<Rightarrow> nat outcome \<times> bot_state" where
  "track_watch_clan_all_stats send_ok grp rows s =
     (let watched_clans = lower ` get_watch_clans s
      in if watched_clans = {} then (Returns 0, s)
         else if rows = [] then (Returns 0, s)
         else fold (clan_row_step send_ok grp watched_clans) rows (Returns 0, s))"

subsection \<open>Player all-stats watch\<close>

text \<open>The body of the inner loop of \<open>track_watch_players_all_stats\<close> (lines 186-218).\<close>

definition player_stat_step ::
  "(nat \<Rightarrow> bool) \<Rightarrow> string \<Rightarrow> string \<Rightarrow> string \<Rightarrow> string \<Rightarrow> rank_raw \<Rightarrow> string \<times> raw
     \<Rightarrow> nat outcome \<times> bot_state \<Rightarrow> nat outcome \<times> bot_state" where
  "player_stat_step send_ok grp steam_id username clan_label rank item acc =
     (case item of (stat_key, v) \<Rightarrow>
       (case acc of
          (Raises e, s) \<Rightarrow> acc
        | (Returns alerts_sent, s) \<Rightarrow>
            (case to_float v of
               NotNumeric \<Rightarrow> acc
             | TooLarge \<Rightarrow> (Raises OverflowError, s)
             | Value current_val \<Rightarrow>
                 (case observe (WATCH_PLAYER_LAST_VALUES s) (grp, steam_id, stat_key)
                         current_val of
                    (delta, cache') \<Rightarrow>
                      (let s1 = s\<lparr>WATCH_PLAYER_LAST_VALUES := cache'\<rparr>
                       in if fle delta (Finite 0) then (Returns alerts_sent, s1)
                          else build_and_send send_ok
                                 (\<lambda>d c. PlayerAlert username clan_label stat_key grp d c rank)
                                 delta current_val alerts_sent s1)))))"

text \<open>
  Line 184:
  \<^verbatim>\<open>clan_label = extra_clans.get(steam_id) or row.get("clanName") or "Unknown"\<close>.
\<close>

definition clan_label_of :: "(string \<times> string) list \<Rightarrow> string \<Rightarrow> row \<Rightarrow> string" where
  "clan_label_of extra_clans steam_id r =
     py_or (case map_of extra_clans steam_id of None \<Rightarrow> [] | Some l \<Rightarrow> l)
       (py_or (row_clanName r) ''Unknown'')"

text \<open>Line 180: \<^verbatim>\<open>username = row.get("username", "Unknown")\<close>.\<close>

definition username_of :: "row \<Rightarrow> string" where
  "username_of r = (case row_username r of None \<Rightarrow> ''Unknown'' | Some u \<Rightarrow> u)"

text \<open>The body of the outer loop (lines 170-218).\<close>

definition player_row_step ::
  "(nat \<Rightarrow> bool) \<Rightarrow> settings \<Rightarrow> string \<Rightarrow> string set \<Rightarrow> row
     \<Rightarrow> nat outcome \<times> bot_state \<Rightarrow> nat outcome \<times> bot_state" where
  "player_row_step send_ok cfg grp watched_players r acc =
     (case acc of
        (Raises e, s) \<Rightarrow> acc
      | (Returns alerts_sent, s) \<Rightarrow>
          (let steam_id = strip (row_steamId r);
               extra_clans = player_clan_overrides cfg
           in if steam_id = [] then acc
              else if steam_id \<notin> watched_players \<and> steam_id \<notin> fst ` set extra_clans then acc
              else fold (player_stat_step send_ok grp steam_id (username_of r)
                           (clan_label_of extra_clans steam_id r) (row_rank r))
                     (row_stats r) acc))"

definition track_watch_players_all_stats ::
  "(nat \<Rightarrow> bool) \<Rightarrow> settings \<Rightarrow> string \<Rightarrow> row list \<Rightarrow> bot_state \<Rightarrow> nat outcome \<times> bot_state" where
  "track_watch_players_all_stats send_ok cfg grp rows s =
     (let watched_players = get_watch_players s;
          extra_clans = player_clan_overrides cfg
      in if watched_players = {} \<and> extra_clans = [] then (Returns 0, s)
         else if rows = [] then (Returns 0, s)
         else fold (player_row_step send_ok cfg grp watched_players) rows (Returns 0, s))"

subsection \<open>Snapshot store: append (storage.py)\<close>

text \<open>
  \<open>add_clan_metric_snapshot\<close>. When no time stamp is passed the row is stamped with
  \<open>int(time.time())\<close>: \<open>clock i\<close> is the reading of the clock at the insertion into a
  table of \<open>i\<close> rows. The insertion raises when the time stamp or the rank does not fit
  its column; a NaN is stored as \<open>NULL\<close>.
\<close>

definition add_clan_metric_snapshot ::
  "string \<Rightarrow> string \<Rightarrow> int option \<Rightarrow> pyfloat option \<Rightarrow> int option \<Rightarrow> (nat \<Rightarrow> int)
     \<Rightarrow> bot_state \<Rightarrow> bot_state outcome" where
  "add_clan_metric_snapshot metric_key clan rank val ts clock s =
     (let ts' = (case ts of None \<Rightarrow> clock (length (clan_metric_history s)) | Some t \<Rightarrow> t)
      in if \<not> sqlite_integer ts' then Raises OverflowError
         else if (case rank of None \<Rightarrow> False | Some k \<Rightarrow> \<not> sqlite_integer k)
         then Raises OverflowError
         else Returns (s\<lparr>clan_metric_history := clan_metric_history s @
                [\<lparr>snap_metric_key = metric_key, snap_clan_name = clan, snap_ts = ts',
                  snap_rank = rank,
                  snap_value = (case val of Some NaN \<Rightarrow> None | _ \<Rightarrow> val)\<rparr>]\<rparr>))"

subsection \<open>Spike detector\<close>

definition ALERT_THRESHOLDS :: "string \<rightharpoonup> real" where
  "ALERT_THRESHOLDS = map_of
     [(''gathered_sulfur_ore'', 5000),
      (''looted_hackable'', 2),
      (''boom_rocket_basic'', 50),
      (''looted_bradley_crates'', 2)]"

definition TREND_TOP_N :: nat where
  "TREND_TOP_N = 5"

text \<open>
  Lines 257-262: \<open>stats.get(sort_by)\<close> is \<open>None\<close> for a missing key, on which
  \<open>float\<close> raises \<open>TypeError\<close>, so the row is skipped.
\<close>

definition current_val_of :: "row \<Rightarrow> string \<Rightarrow> conv" where
  "current_val_of r sort_by =
     (case map_of (row_stats r) sort_by of None \<Rightarrow> NotNumeric | Some raw_val \<Rightarrow> to_float raw_val)"

text \<open>
  Line 269: \<^verbatim>\<open>int(rank) if rank is not None else None\<close>, evaluated outside any
  \<open>try\<close>.
\<close>

fun rank_to_int :: "rank_raw \<Rightarrow> exn + int option" where
  "rank_to_int RankNone = Inr None"
| "rank_to_int (Rank i) = Inr (Some i)"
| "rank_to_int (RankBad e) = Inl e"

text \<open>The body of the loop of \<open>log_top_and_detect_spikes\<close> (lines 252-305).\<close>

definition spike_row_step ::
  "(nat \<Rightarrow> bool) \<Rightarrow> settings \<Rightarrow> (nat \<Rightarrow> int) \<Rightarrow> real option \<Rightarrow> string \<Rightarrow> string \<Rightarrow> row
     \<Rightarrow> nat outcome \<times> bot_state \<Rightarrow> nat outcome \<times> bot_state" where
  "spike_row_step send_ok cfg clock threshold metric_key sort_by r acc =
     (case acc of
        (Raises e, s) \<Rightarrow> acc
      | (Returns alerts_sent, s) \<Rightarrow>
          (let clan_name_raw = clan_name_raw_of r
           in if clan_name_raw = [] then acc
              else
                (case current_val_of r sort_by of
                   NotNumeric \<Rightarrow> acc
                 | TooLarge \<Rightarrow> (Raises OverflowError, s)
                 | Value current_val \<Rightarrow>
                     (case rank_to_int (row_rank r) of
                        Inl e \<Rightarrow> (Raises e, s)
                      | Inr rank \<Rightarrow>
                          (case add_clan_metric_snapshot metric_key clan_name_raw rank
                                  (Some current_val) None clock s of
                             Raises e \<Rightarrow> (Raises e, s)
                           | Returns s1 \<Rightarrow>
                               (case threshold of
                                  None \<Rightarrow> (Returns alerts_sent, s1)
                                | Some t \<Rightarrow>
                                    (case observe (LAST_CLAN_METRIC_VALUES s1)
                                            (metric_key, clan_name_raw) current_val of
                                       (delta, cache') \<Rightarrow>
                                         (let s2 = s1\<lparr>LAST_CLAN_METRIC_VALUES := cache'\<rparr>
                                          in if flt delta (Finite t) then (Returns alerts_sent, s2)
                                             else if lower clan_name_raw = lower (clan_name cfg)
                                             then (Returns alerts_sent, s2)
                                             else build_and_send send_ok
                                                    (\<lambda>d c. SpikeAlert clan_name_raw metric_key d c
                                                             (row_rank r))
                                                    delta current_val alerts_sent s2))))))))"

definition log_top_and_detect_spikes ::
  "(nat \<Rightarrow> bool) \<Rightarrow> settings \<Rightarrow> (nat \<Rightarrow> int) \<Rightarrow> string \<Rightarrow> row list \<Rightarrow> string \<Rightarrow> bot_state
     \<Rightarrow> nat outcome \<times> bot_state" where
  "log_top_and_detect_spikes send_ok cfg clock metric_key rows sort_by s =
     (let threshold = ALERT_THRESHOLDS metric_key
      in if rows = [] then (Returns 0, s)
         else fold (spike_row_step send_ok cfg clock threshold metric_key sort_by)
                (take TREND_TOP_N rows) (Returns 0, s))"

section \<open>Snapshot store: windowed changes (storage.py)\<close>

text \<open>
  An entry of the result dict: \<open>start\<close> and \<open>end\<close> are floats (a \<open>NULL\<close> value reads as
  \<open>0.0\<close>), \<open>rank\<close> is an integer (\<open>0\<close> for \<open>NULL\<close>).
\<close>

record change =
  ch_start :: pyfloat
  ch_end :: pyfloat
  ch_rank :: int

text \<open>
  The two inner queries of \<open>get_clan_metric_changes\<close>
  (\<open>WHERE metric_key = ? AND clan_name = ? AND ts = ? LIMIT 1\<close>): the first matching
  row in table order.
\<close>

definition snapshot_at :: "snapshot list \<Rightarrow> string \<Rightarrow> string \<Rightarrow> int \<Rightarrow> snapshot option" where
  "snapshot_at hist metric_key clan t =
     find (\<lambda>x. snap_metric_key x = metric_key \<and> snap_clan_name x = clan \<and> snap_ts x = t) hist"

text \<open>
  \<open>get_clan_metric_changes\<close>: \<open>now\<close> is \<open>int(time.time())\<close>. Binding a \<open>cutoff\<close> that
  is no 64-bit integer raises \<open>OverflowError\<close>. The outer query keeps the rows with
  \<open>metric_key = ? AND ts >= cutoff\<close> and groups them by clan; SQLite returns the groups
  in the order of \<open>clan_name\<close>, and the result dict, an association list here, has one
  entry per group in that order.
\<close>

definition get_clan_metric_changes ::
  "string \<Rightarrow> int \<Rightarrow> int \<Rightarrow> bot_state \<Rightarrow> (string \<times> change) list outcome" where
  "get_clan_metric_changes metric_key hours now s =
     (let cutoff = now - hours * 3600;
          hist = clan_metric_history s;
          in_window = filter (\<lambda>x. snap_metric_key x = metric_key \<and> snap_ts x \<ge> cutoff) hist
      in if \<not> sqlite_integer cutoff then Raises OverflowError
         else Returns
           (map (\<lambda>clan.
                (let mine = map snap_ts (filter (\<lambda>x. snap_clan_name x = clan) in_window);
                     first_ts = Min (set mine);
                     last_ts = Max (set mine);
                     start_val = Option.bind (snapshot_at hist metric_key clan first_ts) snap_value;
                     last_row = snapshot_at hist metric_key clan last_ts;
                     end_val = Option.bind last_row snap_value;
                     latest_rank = Option.bind last_row snap_rank
                 in (clan,
                     \<lparr>ch_start = (case start_val of None \<Rightarrow> Finite 0 | Some v \<Rightarrow> v),
                      ch_end = (case end_val of None \<Rightarrow> Finite 0 | Some v \<Rightarrow> v),
                      ch_rank = (case latest_rank of None \<Rightarrow> 0 | Some k \<Rightarrow> k)\<rparr>)))
              (sort (remdups (map snap_clan_name in_window)))))"

section \<open>Trend view (embeds.py)\<close>

text \<open>
  One field of \<open>build_trend_embed\<close> (lines 291-326). A line is the tuple
  \<open>(clan, delta, end_val, rank)\<close> it is rendered from; its text holds \<open>int(end_val)\<close> and
  \<open>int(delta)\<close>, so both are finite. The field is \<open>No data yet.\<close>,
  \<open>No positive gains in last 12 hours.\<close>, or the lines; or an exception leaves
  \<open>build_trend_embed\<close>. When the delta of some clan is NaN, Python does not specify the
  order \<open>list.sort\<close> leaves, and the model gives no field (\<open>Unspecified\<close>).
\<close>

type_synonym trend_row = "string \<times> real \<times> real \<times> int"

datatype trend_field = NoData | NoGains | Lines "trend_row list" | Unspecified | FieldRaises exn

definition row_delta :: "trend_row \<Rightarrow> real" where
  "row_delta r = fst (snd r)"

text \<open>
  The key of the descending sort: \<open>rows.sort(key=lambda r: r[1], reverse=True)\<close> is
  stable, also with \<open>reverse=True\<close>, as is \<open>sort_key\<close> on a key that reverses the order
  of the floats.
\<close>

fun desc_key :: "pyfloat \<Rightarrow> int \<times> real" where
  "desc_key PosInf = (0, 0)"
| "desc_key (Finite r) = (1, - r)"
| "desc_key NegInf = (2, 0)"
| "desc_key NaN = (3, 0)"

text \<open>
  Rendering a line (lines 313-316): \<open>int(end_val)\<close>, then \<open>int(delta)\<close>.
\<close>

fun render_line :: "string \<times> pyfloat \<times> pyfloat \<times> int \<Rightarrow> exn + trend_row" where
  "render_line (clan, delta, end_val, rank) =
     (case to_int end_val of
        Inl e \<Rightarrow> Inl e
      | Inr e' \<Rightarrow>
          (case to_int delta of
             Inl e \<Rightarrow> Inl e
           | Inr d' \<Rightarrow>
               (case (delta, end_val) of
                  (Finite d, Finite e) \<Rightarrow> Inr (clan, d, e, rank)
                | _ \<Rightarrow> Inl ValueError)))"

fun render_lines :: "(string \<times> pyfloat \<times> pyfloat \<times> int) list \<Rightarrow> exn + trend_row list" where
  "render_lines [] = Inr []"
| "render_lines (r # rs) =
     (case render_line r of
        Inl e \<Rightarrow> Inl e
      | Inr l \<Rightarrow> (case render_lines rs of Inl e \<Rightarrow> Inl e | Inr ls \<Rightarrow> Inr (l # ls)))"

definition trend_field_of :: "(string \<times> change) list \<Rightarrow> trend_field" where
  "trend_field_of trend =
     (if trend = [] then NoData
      else
        (let rows = map (\<lambda>(clan, info).
                           (clan, fsub (ch_end info) (ch_start info), ch_end info, ch_rank info))
                      trend
         in if filter (\<lambda>r. fst (snd r) = NaN) rows \<noteq> [] then Unspecified
            else
              (let sorted_rows = sort_key (\<lambda>r. desc_key (fst (snd r))) rows;
                   top5 = take 5 sorted_rows;
                   shown = filter (\<lambda>r. \<not> fle (fst (snd r)) (Finite 0)) top5
               in (case render_lines shown of
                     Inl e \<Rightarrow> FieldRaises e
                   | Inr lines \<Rightarrow> if lines = [] then NoGains else Lines lines))))"

definition trend_view :: "string \<Rightarrow> int \<Rightarrow> bot_state \<Rightarrow> trend_field" where
  "trend_view metric_key now s =
     (case get_clan_metric_changes metric_key 12 now s of
        Raises e \<Rightarrow> FieldRaises e
      | Returns trend \<Rightarrow> trend_field_of trend)"

section \<open>Update orchestrator (watchers.py)\<close>

record metric_info =
  mi_group :: string
  mi_sortBy :: string
  mi_label :: string

text \<open>
  The upstream API. A request is a clan or a player leaderboard of a group, sorted by a
  field. \<open>requests.get\<close>, \<open>raise_for_status\<close> and \<open>resp.json()\<close> end with a
  \<open>RequestException\<close>, with a \<open>ValueError\<close> of the JSON decoder, with another exception,
  or with the decoded JSON, which either has \<open>data.entries\<close>, a list of dicts
  (\<open>Some rows\<close>), or not (\<open>None\<close>). \<open>http i req\<close> is the outcome of request \<open>req\<close>
  when it is the \<open>i\<close>-th request of the cycle.
\<close>

datatype request = ClanLeaderboard string string | PlayerLeaderboard string string

datatype http_result = RequestException | InvalidJson | OtherFailure | Json "row list option"

type_synonym http = "nat \<Rightarrow> request \<Rightarrow> http_result"

text \<open>
  \<open>parse_leaderboard_rows\<close>: the entries, or the empty list when the format is
  unexpected (\<open>KeyError\<close> and \<open>TypeError\<close> are caught).
\<close>

definition parse_leaderboard_rows :: "row list option \<Rightarrow> row list" where
  "parse_leaderboard_rows data = (case data of None \<Rightarrow> [] | Some entries \<Rightarrow> entries)"

text \<open>
  The state of one cycle: the process state, the requests issued so far (with whether
  the fetch function returned), the locals \<open>stats_for_leaderboard\<close>, \<open>alert_count\<close> and
  \<open>player_rows_cache\<close>, and the exception that has left \<open>post_walobots_update\<close>, if
  any.
\<close>

record cycle_state =
  bot :: bot_state
  fetch_log :: "(request \<times> bool) list"
  stats_for_leaderboard :: "string \<rightharpoonup> row \<times> row option"
  alert_count :: nat
  player_rows_cache :: "string \<rightharpoonup> row list"
  raised :: "exn option"

text \<open>
  The \<open>try\<close> block shared by the two fetch functions of rustinity_client.py
  (lines 607-619 and 638-657): a \<open>RequestException\<close> and a \<open>ValueError\<close> are caught and
  the dict \<open>{"success": False, "error": ..., "data": {}}\<close>, which has no
  \<open>data.entries\<close>, is returned; any other exception leaves the function.
\<close>

definition http_get :: "http \<Rightarrow> request \<Rightarrow> cycle_state \<Rightarrow> row list option outcome \<times> cycle_state" where
  "http_get http req c =
     (let res = (case http (length (fetch_log c)) req of
                   RequestException \<Rightarrow> Returns None
                 | InvalidJson \<Rightarrow> Returns None
                 | OtherFailure \<Rightarrow> Raises OtherException
                 | Json data \<Rightarrow> Returns data)
      in (res, c\<lparr>fetch_log := fetch_log c @ [(req, res \<noteq> Raises OtherException)]\<rparr>))"

definition fetch_leaderboard_for_metric ::
  "http \<Rightarrow> (string \<times> metric_info) list \<Rightarrow> string \<Rightarrow> cycle_state
     \<Rightarrow> row list option outcome \<times> cycle_state" where
  "fetch_leaderboard_for_metric http metrics metric_key c =
     (case map_of metrics metric_key of
        None \<Rightarrow> (Raises KeyError, c)
      | Some cfg \<Rightarrow> http_get http (ClanLeaderboard (mi_group cfg) (mi_sortBy cfg)) c)"

definition fetch_player_leaderboard ::
  "http \<Rightarrow> string \<Rightarrow> string \<Rightarrow> cycle_state \<Rightarrow> row list option outcome \<times> cycle_state" where
  "fetch_player_leaderboard http grp sort_by c = http_get http (PlayerLeaderboard grp sort_by) c"

text \<open>
  Adding the result of a watcher to \<open>alert_count\<close>; an exception of the watcher is not
  caught and leaves \<open>post_walobots_update\<close>.
\<close>

definition add_alerts :: "nat outcome \<times> bot_state \<Rightarrow> cycle_state \<Rightarrow> cycle_state" where
  "add_alerts res c =
     (case res of
        (Raises e, s') \<Rightarrow> c\<lparr>bot := s', raised := Some e\<rparr>
      | (Returns n, s') \<Rightarrow> c\<lparr>bot := s', alert_count := alert_count c + n\<rparr>)"

text \<open>Lines 358-365: the spike detector, for metrics with a threshold.\<close>

definition run_spikes ::
  "(nat \<Rightarrow> bool) \<Rightarrow> settings \<Rightarrow> (nat \<Rightarrow> int) \<Rightarrow> string \<Rightarrow> row list \<Rightarrow> string \<Rightarrow> cycle_state
     \<Rightarrow> cycle_state" where
  "run_spikes send_ok cfg clock metric_key rows sort_by c =
     (if ALERT_THRESHOLDS metric_key \<noteq> None
      then add_alerts (log_top_and_detect_spikes send_ok cfg clock metric_key rows sort_by (bot c)) c
      else c)"

text \<open>Lines 367-374: the clan watch, when tracking is enabled and a clan is watched.\<close>

definition run_clan_watch ::
  "(nat \<Rightarrow> bool) \<Rightarrow> string \<Rightarrow> row list \<Rightarrow> cycle_state \<Rightarrow> cycle_state" where
  "run_clan_watch send_ok grp rows c =
     (if raised c \<noteq> None then c
      else if tracking_enabled (bot c) \<and> get_watch_clans (bot c) \<noteq> {}
      then add_alerts (track_watch_clan_all_stats send_ok grp rows (bot c)) c
      else c)"

text \<open>Lines 393-397: the player watch on the rows cached for the group.\<close>

definition apply_player_watch ::
  "(nat \<Rightarrow> bool) \<Rightarrow> settings \<Rightarrow> string \<Rightarrow> row list \<Rightarrow> cycle_state \<Rightarrow> cycle_state" where
  "apply_player_watch send_ok cfg grp rows c =
     add_alerts (track_watch_players_all_stats send_ok cfg grp rows (bot c)) c"

text \<open>
  Lines 376-397. The player leaderboard of a group is fetched when the group is not in
  \<open>player_rows_cache\<close>; a call that raises leaves the cache as it is and ends the
  iteration (\<open>continue\<close>), a call that returns stores the parsed rows under the group.
\<close>

definition run_player_watch ::
  "http \<Rightarrow> (nat \<Rightarrow> bool) \<Rightarrow> settings \<Rightarrow> string \<Rightarrow> string \<Rightarrow> cycle_state \<Rightarrow> cycle_state" where
  "run_player_watch http send_ok cfg grp sort_by c =
     (if raised c \<noteq> None then c
      else if tracking_enabled (bot c)
         \<and> (get_watch_players (bot c) \<noteq> {} \<or> player_clan_overrides cfg \<noteq> [])
      then
        (case player_rows_cache c grp of
           Some cached \<Rightarrow> apply_player_watch send_ok cfg grp cached c
         | None \<Rightarrow>
             (case fetch_player_leaderboard http grp sort_by c of
                (Raises e, c1) \<Rightarrow> c1
              | (Returns pdata, c1) \<Rightarrow>
                  (let prows = parse_leaderboard_rows pdata
                   in apply_player_watch send_ok cfg grp prows
                        (c1\<lparr>player_rows_cache := (player_rows_cache c1)(grp \<mapsto> prows)\<rparr>))))
      else c)"

text \<open>
  The body of the loop over the metric keys (lines 335-397). The table \<open>METRICS\<close> of
  rustinity_client.py is the parameter \<open>metrics\<close>, an association list. No iteration
  runs once an exception has left the function.
\<close>

definition metric_step ::
  "http \<Rightarrow> (nat \<Rightarrow> bool) \<Rightarrow> settings \<Rightarrow> (nat \<Rightarrow> int) \<Rightarrow> (string \<times> metric_info) list \<Rightarrow> string
     \<Rightarrow> cycle_state \<Rightarrow> cycle_state" where
  "metric_step http send_ok cfg clock metrics metric_key c =
     (if raised c \<noteq> None then c
      else
        (case map_of metrics metric_key of
           None \<Rightarrow> c
         | Some info \<Rightarrow>
             (case fetch_leaderboard_for_metric http metrics metric_key c of
                (Raises e, c1) \<Rightarrow> c1
              | (Returns data, c1) \<Rightarrow>
                  (let rows = parse_leaderboard_rows data
                   in if rows = [] then c1
                      else
                        (let sort_by = mi_sortBy info;
                             top1 = hd rows;
                             top2 = (if length rows > 1 then Some (rows ! 1) else None);
                             c2 = c1\<lparr>stats_for_leaderboard :=
                                     (stats_for_leaderboard c1)(metric_key \<mapsto> (top1, top2))\<rparr>;
                             c3 = run_spikes send_ok cfg clock metric_key rows sort_by c2;
                             c4 = run_clan_watch send_ok (mi_group info) rows c3
                         in run_player_watch http send_ok cfg (mi_group info) sort_by c4)))))"

text \<open>
  \<open>bot.get_channel(settings.channel_id)\<close>: no channel, a channel that is not
  messageable, or a messageable one.
\<close>

datatype channel = NoChannel | NotMessageable | Messageable

text \<open>
  \<open>post_walobots_update\<close> up to the end of the loop (step 1). Without a messageable
  channel the function returns at once (lines 311-317). \<open>order\<close> is the order in which
  the iteration over \<open>set(METRICS.keys())\<close> yields the keys. Steps 2 and 3, which render
  and send the two embeds, issue no request and are not modelled.
\<close>

definition post_walobots_update ::
  "http \<Rightarrow> (nat \<Rightarrow> bool) \<Rightarrow> settings \<Rightarrow> (nat \<Rightarrow> int) \<Rightarrow> channel \<Rightarrow> string list
     \<Rightarrow> (string \<times> metric_info) list \<Rightarrow> bot_state \<Rightarrow> cycle_state" where
  "post_walobots_update http send_ok cfg clock chan order metrics s =
     (let c0 = \<lparr>bot = s, fetch_log = [], stats_for_leaderboard = Map.empty, alert_count = 0,
                player_rows_cache = Map.empty, raised = None\<rparr>
      in if chan \<noteq> Messageable then c0
         else fold (metric_step http send_ok cfg clock metrics) order c0)"

text \<open>The table \<open>METRICS\<close> of rustinity_client.py (lines 22-567), in its order.\<close>

definition metric :: "string \<Rightarrow> string \<Rightarrow> string \<Rightarrow> metric_info" where
  "metric g sb l = \<lparr>mi_group = g, mi_sortBy = sb, mi_label = l\<rparr>"

definition METRICS :: "(string \<times> metric_info) list" where
  "METRICS =
     [(''pvp_kills'', metric ''pvp'' ''kill_player'' ''PvP Kills''),
      (''pvp_deaths'', metric ''pvp'' ''death_player'' ''PvP Deaths''),
      (''pve_sharks'', metric ''pve'' ''killed_shark'' ''Sharks Killed''),
      (''pve_chickens'', metric ''pve'' ''killed_chicken'' ''Chickens Killed''),
      (''pve_patrol_heli'', metric ''pve'' ''killed_patrolheli'' ''Patrol Helicopters Killed''),
      (''pve_bradleys'', metric ''pve'' ''killed_bradley'' ''Bradleys Killed''),
      (''pve_scientists'', metric ''pve'' ''killed_scientist'' ''Scientists Killed''),
      (''pve_tunnel_dwellers'', metric ''pve'' ''killed_tunneldweller'' ''Tunnel Dwellers Killed''),
      (''pve_bears'', metric ''pve'' ''killed_bear'' ''Bears Killed''),
      (''pve_deer'', metric ''pve'' ''killed_deer'' ''Deer Killed''),
      (''pve_polar_bears'', metric ''pve'' ''killed_polarbear'' ''Polar Bears Killed''),
      (''pve_boars'', metric ''pve'' ''killed_boar'' ''Boars Killed''),
      (''pve_wolves'', metric ''pve'' ''killed_wolf'' ''Wolves Killed''),
      (''pve_underwater_dwellers'', metric ''pve'' ''killed_underwaterdweller'' ''Underwater Dwellers Killed''),
      (''gambling_poker_won'', metric ''gambling'' ''gambling_pokerwon'' ''Poker Winnings''),
      (''gambling_poker_deposited'', metric ''gambling'' ''gambling_pokerdeposited'' ''Poker Deposited''),
      (''gambling_slot_won'', metric ''gambling'' ''gambling_slotwon'' ''Slots Winnings''),
      (''gambling_slot_deposited'', metric ''gambling'' ''gambling_slotdeposited'' ''Slots Deposited''),
      (''gambling_wheel_won'', metric ''gambling'' ''gambling_wheelwon'' ''Wheel Winnings''),
      (''gambling_wheel_deposited'', metric ''gambling'' ''gambling_wheeldeposited'' ''Wheel Deposited''),
      (''gambling_blackjack_deposited'', metric ''gambling'' ''gambling_blackjackdeposited'' ''Blackjack Deposited''),
      (''gambling_blackjack_won'', metric ''gambling'' ''gambling_blackjackwon'' ''Blackjack Winnings''),
      (''looted_oil_barrels'', metric ''looted'' ''looted_oilbarrel'' ''Oil Barrels Looted''),
      (''looted_crates'', metric ''looted'' ''looted_crate'' ''Crates Looted''),
      (''looted_hackable'', metric ''looted'' ''looted_hackablecrate'' ''Hackable Crates Looted''),
      (''looted_barrels'', metric ''looted'' ''looted_barrel'' ''Barrels Looted''),
      (''looted_bradley_crates'', metric ''looted'' ''looted_bradleycrate'' ''Bradley Crates Looted''),
      (''looted_heli_crates'', metric ''looted'' ''looted_helicrate'' ''Heli Crates Looted''),
      (''looted_supply_drops'', metric ''looted'' ''looted_supplydrop'' ''Supply Drops Looted''),
      (''looted_elite_crates'', metric ''looted'' ''looted_elitecrate'' ''Elite Crates Looted''),
      (''build_foundation'', metric ''building'' ''build_foundation'' ''Foundations Built''),
      (''build_foundation_triangle'', metric ''building'' ''build_foundation.triangle'' ''Triangle Foundations Built''),
      (''build_floor_triangle'', metric ''building'' ''build_floor.triangle'' ''Triangle Floors Built''),
      (''build_floor'', metric ''building'' ''build_floor'' ''Floors Built''),
      (''build_foundation_steps'', metric ''building'' ''build_foundation.steps'' ''Foundation Steps Built''),
      (''build_floor_frame'', metric ''building'' ''build_floor.frame'' ''Floor Frames Built''),
      (''build_floor_triangle_frame'', metric ''building'' ''build_floor.triangle.frame'' ''Triangle Floor Frames Built''),
      (''build_wall_low'', metric ''building'' ''build_wall.low'' ''Low Walls Built''),
      (''build_wall'', metric ''building'' ''build_wall'' ''Walls Built''),
      (''build_wall_window'', metric ''building'' ''build_wall.window'' ''Window Walls Built''),
      (''build_wall_half'', metric ''building'' ''build_wall.half'' ''Half Walls Built''),
      (''build_wall_frame'', metric ''building'' ''build_wall.frame'' ''Wall Frames Built''),
      (''build_wall_doorway'', metric ''building'' ''build_wall.doorway'' ''Doorways Built''),
      (''build_stairs_spiral'', metric ''building'' ''build_stairs.spiral'' ''Spiral Stairs Built''),
      (''build_stairs_u'', metric ''building'' ''build_stairs.u'' ''U Stairs Built''),
      (''build_stairs_spiral_triangle'', metric ''building'' ''build_stairs.spiral.triangle'' ''Spiral Triangle Stairs Built''),
      (''build_stairs_l'', metric ''building'' ''build_stairs.l'' ''L Stairs Built''),
      (''build_roof'', metric ''building'' ''build_roof'' ''Roofs Built''),
      (''build_roof_triangle'', metric ''building'' ''build_roof.triangle'' ''Triangle Roofs Built''),
      (''build_ramp'', metric ''building'' ''build_ramp'' ''Ramps Built''),
      (''placed_external_stone_gate'', metric ''item_placed'' ''build_gates.external.high.stone'' ''Stone External Gates Placed''),
      (''placed_sleeping_bags'', metric ''item_placed'' ''build_sleepingbag_leather_deployed'' ''Sleeping Bags Placed''),
      (''placed_beds'', metric ''item_placed'' ''build_bed_deployed'' ''Beds Placed''),
      (''placed_lockers'', metric ''item_placed'' ''build_locker.deployed'' ''Lockers Placed''),
      (''placed_gun_traps'', metric ''item_placed'' ''build_guntrap.deployed'' ''Gun Traps Placed''),
      (''placed_tc'', metric ''item_placed'' ''build_cupboard.tool.deployed'' ''Tool Cupboards Placed''),
      (''placed_vending_machines'', metric ''item_placed'' ''build_vendingmachine.deployed'' ''Vending Machines Placed''),
      (''placed_small_wood_boxes'', metric ''item_placed'' ''build_woodbox_deployed'' ''Small Wood Boxes Placed''),
      (''placed_flame_turrets'', metric ''item_placed'' ''build_flameturret.deployed'' ''Flame Turrets Placed''),
      (''placed_sam_sites'', metric ''item_placed'' ''build_sam_site_turret_deployed'' ''SAM Sites Placed''),
      (''placed_furnaces'', metric ''item_placed'' ''build_furnace'' ''Furnaces Placed''),
      (''placed_large_furnaces'', metric ''item_placed'' ''build_furnace.large'' ''Large Furnaces Placed''),
      (''placed_external_ice_walls'', metric ''item_placed'' ''build_wall.external.high.ice'' ''High External Ice Walls Placed''),
      (''placed_external_stone_walls'', metric ''item_placed'' ''build_wall.external.high.stone'' ''High External Stone Walls Placed''),
      (''placed_external_wood_walls'', metric ''item_placed'' ''build_wall.external.high.wood'' ''High External Wood Walls Placed''),
      (''placed_large_wood_boxes'', metric ''item_placed'' ''build_box.wooden.large'' ''Large Wood Boxes Placed''),
      (''placed_external_wood_gates'', metric ''item_placed'' ''build_gates.external.high.wood'' ''Wood External Gates Placed''),
      (''recycled_propanetanks'', metric ''recycled'' ''recycled_propanetank'' ''Propane Tanks Recycled''),
      (''recycled_techparts'', metric ''recycled'' ''recycled_techparts'' ''Tech Trash Recycled''),
      (''recycled_smg_bodies'', metric ''recycled'' ''recycled_smgbody'' ''SMG Bodies Recycled''),
      (''recycled_metal_blades'', metric ''recycled'' ''recycled_metalblade'' ''Metal Blades Recycled''),
      (''recycled_fuses'', metric ''recycled'' ''recycled_fuse'' ''Fuses Recycled''),
      (''recycled_sheet_metal'', metric ''recycled'' ''recycled_sheetmetal'' ''Sheet Metal Recycled''),
      (''recycled_rope'', metric ''recycled'' ''recycled_rope'' ''Rope Recycled''),
      (''recycled_tarp'', metric ''recycled'' ''recycled_tarp'' ''Tarp Recycled''),
      (''recycled_sewing_kits'', metric ''recycled'' ''recycled_sewingkit'' ''Sewing Kits Recycled''),
      (''recycled_roadsigns'', metric ''recycled'' ''recycled_roadsigns'' ''Road Signs Recycled''),
      (''recycled_metal_springs'', metric ''recycled'' ''recycled_metalspring'' ''Metal Springs Recycled''),
      (''recycled_semi_bodies'', metric ''recycled'' ''recycled_semibody'' ''Semi Bodies Recycled''),
      (''recycled_rifle_bodies'', metric ''recycled'' ''recycled_riflebody'' ''Rifle Bodies Recycled''),
      (''recycled_metal_pipes'', metric ''recycled'' ''recycled_metalpipe'' ''Metal Pipes Recycled''),
      (''recycled_gears'', metric ''recycled'' ''recycled_gears'' ''Gears Recycled''),
      (''gathered_metal_ore'', metric ''gathered'' ''gathered_metal.ore'' ''Metal Ore Gathered''),
      (''gathered_cactus_flesh'', metric ''gathered'' ''gathered_cactusflesh'' ''Cactus Flesh Gathered''),
      (''gathered_cloth'', metric ''gathered'' ''gathered_cloth'' ''Cloth Gathered''),
      (''gathered_sulfur_ore'', metric ''gathered'' ''gathered_sulfur.ore'' ''Sulfur Ore Gathered''),
      (''gathered_hqm_ore'', metric ''gathered'' ''gathered_hq.metal.ore'' ''HQM Ore Gathered''),
      (''gathered_animal_fat'', metric ''gathered'' ''gathered_fat.animal'' ''Animal Fat Gathered''),
      (''gathered_leather'', metric ''gathered'' ''gathered_leather'' ''Leather Gathered''),
      (''gathered_wood'', metric ''gathered'' ''gathered_wood'' ''Wood Gathered''),
      (''gathered_stone'', metric ''gathered'' ''gathered_stones'' ''Stone Gathered''),
      (''boom_rocket_hv'', metric ''boom'' ''shot_ammo.rocket.hv'' ''HV Rockets Fired''),
      (''boom_rocket_fire'', metric ''boom'' ''shot_ammo.rocket.fire'' ''Fire Rockets Fired''),
      (''boom_rocket_basic'', metric ''boom'' ''shot_ammo.rocket.basic'' ''Rockets Fired''),
      (''boom_beancan'', metric ''boom'' ''thrown_grenade.beancan'' ''Beancan Grenades Thrown''),
      (''boom_f1'', metric ''boom'' ''thrown_grenade.f1'' ''F1 Grenades Thrown''),
      (''boom_flashbang'', metric ''boom'' ''thrown_grenade.flashbang'' ''Flashbangs Thrown''),
      (''boom_molotov'', metric ''boom'' ''thrown_grenade.molotov'' ''Molotovs Thrown''),
      (''boom_satchel'', metric ''boom'' ''thrown_explosive.satchel'' ''Satchels Thrown''),
      (''boom_smoke_grenade'', metric ''boom'' ''thrown_grenade.smoke'' ''Smoke Grenades Thrown''),
      (''boom_catapult_incendiary'', metric ''boom'' ''explode_catapult.ammo.incendiary'' ''Catapult Incendiary Ammo''),
      (''boom_catapult_boulder'', metric ''boom'' ''explode_catapult.ammo.boulder'' ''Catapult Boulder Ammo''),
      (''boom_catapult_explosive'', metric ''boom'' ''explode_catapult.ammo.explosive'' ''Catapult Explosive Ammo''),
      (''boom_c4'', metric ''boom'' ''thrown_explosive.timed'' ''Timed Explosives Thrown''),
      (''boom_gl_he'', metric ''boom'' ''shot_ammo.grenadelauncher.he'' ''GL HE Rounds Fired''),
      (''boom_gl_smoke'', metric ''boom'' ''shot_ammo.grenadelauncher.smoke'' ''GL Smoke Rounds Fired''),
      (''boom_explosive_rifle'', metric ''boom'' ''shot_ammo.rifle.explosive'' ''Explosive Rifle Rounds Fired'')]"

section \<open>Reading a run\<close>

text \<open>
  The fetch log: the group of each player-leaderboard request with whether the call
  returned, and the group and sort field of a request.
\<close>

fun player_fetches :: "(request \<times> bool) list \<Rightarrow> (string \<times> bool) list" where
  "player_fetches [] = []"
| "player_fetches ((ClanLeaderboard g sb, returned) # es) = player_fetches es"
| "player_fetches ((PlayerLeaderboard g sb, returned) # es) = (g, returned) # player_fetches es"

fun request_pair :: "request \<Rightarrow> string \<times> string" where
  "request_pair (ClanLeaderboard g sb) = (g, sb)"
| "request_pair (PlayerLeaderboard g sb) = (g, sb)"

text \<open>Once a player-leaderboard fetch of a group has returned, no later one is for that group.\<close>

fun no_fetch_after_return :: "(string \<times> bool) list \<Rightarrow> bool" where
  "no_fetch_after_return [] = True"
| "no_fetch_after_return ((g, returned) # rest) =
     ((returned \<longrightarrow> g \<notin> fst ` set rest) \<and> no_fetch_after_return rest)"

text \<open>The clan-leaderboard request of a metric key.\<close>

definition clan_request :: "(string \<times> metric_info) list \<Rightarrow> string \<Rightarrow> request" where
  "clan_request metrics k =
     (case map_of metrics k of
        None \<Rightarrow> ClanLeaderboard [] []
      | Some info \<Rightarrow> ClanLeaderboard (mi_group info) (mi_sortBy info))"

text \<open>
  The observations of a run, in order, as pairs of cache key and value: what the
  watchers hand to \<open>observe\<close> when no exception ends them early. A stat of a watched
  clan or of a tracked player is observed when \<open>float\<close> converts it; the spike
  detector observes the sort field of a named row among the first five when the metric
  has a threshold.
\<close>

definition clan_stat_observation ::
  "string \<Rightarrow> string \<Rightarrow> string \<times> raw \<Rightarrow> ((string \<times> string \<times> string) \<times> pyfloat) list" where
  "clan_stat_observation grp clan_name_raw item =
     (case item of (stat_key, v) \<Rightarrow>
        (case to_float v of Value x \<Rightarrow> [((grp, lower clan_name_raw, stat_key), x)] | _ \<Rightarrow> []))"

definition clan_row_observations ::
  "string \<Rightarrow> string set \<Rightarrow> row \<Rightarrow> ((string \<times> string \<times> string) \<times> pyfloat) list" where
  "clan_row_observations grp watched r =
     (if clan_name_raw_of r = [] then []
      else if lower (clan_name_raw_of r) \<in> watched
      then concat (map (clan_stat_observation grp (clan_name_raw_of r)) (row_stats r))
      else [])"

definition clan_watch_observations ::
  "string \<Rightarrow> bot_state \<Rightarrow> row list \<Rightarrow> ((string \<times> string \<times> string) \<times> pyfloat) list" where
  "clan_watch_observations grp s rows =
     concat (map (clan_row_observations grp (lower ` get_watch_clans s)) rows)"

text \<open>
  A player row is tracked when its id, stripped, is not empty and is in the registry or
  a key of \<open>player_clan_overrides\<close>.
\<close>

definition tracked :: "settings \<Rightarrow> string set \<Rightarrow> row \<Rightarrow> bool" where
  "tracked cfg watched r =
     (if strip (row_steamId r) = [] then False
      else if strip (row_steamId r) \<in> watched then True
      else strip (row_steamId r) \<in> fst ` set (player_clan_overrides cfg))"

definition player_stat_observation ::
  "string \<Rightarrow> string \<Rightarrow> string \<times> raw \<Rightarrow> ((string \<times> string \<times> string) \<times> pyfloat) list" where
  "player_stat_observation grp steam_id item =
     (case item of (stat_key, v) \<Rightarrow>
        (case to_float v of Value x \<Rightarrow> [((grp, steam_id, stat_key), x)] | _ \<Rightarrow> []))"

definition player_row_observations ::
  "settings \<Rightarrow> string set \<Rightarrow> string \<Rightarrow> row \<Rightarrow> ((string \<times> string \<times> string) \<times> pyfloat) list" where
  "player_row_observations cfg watched grp r =
     (if tracked cfg watched r
      then concat (map (player_stat_observation grp (strip (row_steamId r))) (row_stats r))
      else [])"

definition player_watch_observations ::
  "settings \<Rightarrow> bot_state \<Rightarrow> string \<Rightarrow> row list \<Rightarrow> ((string \<times> string \<times> string) \<times> pyfloat) list" where
  "player_watch_observations cfg s grp rows =
     concat (map (player_row_observations cfg (get_watch_players s) grp) rows)"

definition spike_row_observation ::
  "string \<Rightarrow> string \<Rightarrow> row \<Rightarrow> ((string \<times> string) \<times> pyfloat) list" where
  "spike_row_observation metric_key sort_by r =
     (if clan_name_raw_of r = [] then []
      else if ALERT_THRESHOLDS metric_key = None then []
      else (case current_val_of r sort_by of
              Value x \<Rightarrow> [((metric_key, clan_name_raw_of r), x)]
            | _ \<Rightarrow> []))"

definition spike_observations ::
  "string \<Rightarrow> string \<Rightarrow> row list \<Rightarrow> ((string \<times> string) \<times> pyfloat) list" where
  "spike_observations metric_key sort_by rows =
     concat (map (spike_row_observation metric_key sort_by) (take TREND_TOP_N rows))"

text \<open>Replaying observations on a cache stores each value under its key, in order.\<close>

definition replay :: "('k \<times> pyfloat) list \<Rightarrow> ('k \<rightharpoonup> pyfloat) \<Rightarrow> ('k \<rightharpoonup> pyfloat)" where
  "replay obs cache = fold (\<lambda>(k, x) m. m(k \<mapsto> x)) obs cache"

text \<open>
  How a watcher ended: the exception that left it, or none. Two results agree when
  they end the same way in the same state.
\<close>

fun status :: "nat outcome \<Rightarrow> exn option" where
  "status (Returns n) = None"
| "status (Raises e) = Some e"

definition agree :: "nat outcome \<times> bot_state \<Rightarrow> nat outcome \<times> bot_state \<Rightarrow> bool" where
  "agree a b \<longleftrightarrow> snd a = snd b \<and> status (fst a) = status (fst b)"

section \<open>Sample inputs\<close>

text \<open>
  The state after start-up, with one watched clan and one watched player, and tracking
  switched on; the same state with the value \<open>v\<close> already seen for clan \<open>Alpha\<close>
  and player \<open>123\<close>; and the start-up state with an empty player registry.
\<close>

definition fresh_state :: bot_state where
  "fresh_state =
     \<lparr>WATCH_CLAN_LAST_VALUES = Map.empty, WATCH_PLAYER_LAST_VALUES = Map.empty,
      LAST_CLAN_METRIC_VALUES = Map.empty, tracking_enabled = True,
      watch_clans = {''alpha''}, watch_players = {''765''},
      clan_metric_history = [], outbox = []\<rparr>"

definition seen_state :: "pyfloat \<Rightarrow> bot_state" where
  "seen_state v =
     \<lparr>WATCH_CLAN_LAST_VALUES = [(''looted'', ''alpha'', ''looted_hackablecrate'') \<mapsto> v],
      WATCH_PLAYER_LAST_VALUES = [(''looted'', ''123'', ''looted_hackablecrate'') \<mapsto> v],
      LAST_CLAN_METRIC_VALUES = [(''looted_hackable'', ''Alpha'') \<mapsto> v],
      tracking_enabled = True,
      watch_clans = {''alpha''}, watch_players = {''765''},
      clan_metric_history = [], outbox = []\<rparr>"


definition alpha_row :: "raw \<Rightarrow> row" where
  "alpha_row v =
     \<lparr>row_name = ''Alpha'', row_clanName = [], row_steamId = ''123'', row_username = Some ''Bob'',
      row_rank = Rank 1, row_stats = [(''looted_hackablecrate'', v)]\<rparr>"

definition named_row :: "string \<Rightarrow> raw \<Rightarrow> row" where
  "named_row nm v =
     \<lparr>row_name = nm, row_clanName = [], row_steamId = [], row_username = None,
      row_rank = RankNone, row_stats = [(''looted_hackablecrate'', v)]\<rparr>"


definition hackable_snapshot :: "string \<Rightarrow> int \<Rightarrow> int \<Rightarrow> real \<Rightarrow> snapshot" where
  "hackable_snapshot clan t rank v =
     \<lparr>snap_metric_key = ''looted_hackable'', snap_clan_name = clan, snap_ts = t,
      snap_rank = Some rank, snap_value = Some (Finite v)\<rparr>"

text \<open>Two clans that both gain 10 between time 100 and time 200.\<close>

definition tie_state :: bot_state where
  "tie_state = fresh_state\<lparr>clan_metric_history :=
     [hackable_snapshot ''Alpha'' 100 1 0, hackable_snapshot ''Beta'' 100 2 0,
      hackable_snapshot ''Alpha'' 200 1 10, hackable_snapshot ''Beta'' 200 2 10]\<rparr>"

definition demo_settings :: settings where
  "demo_settings = \<lparr>clan_name = ''Walobots'', player_clan_overrides = [(''123'', ''Raiders'')]\<rparr>"

text \<open>A clock that reads 1000 at every insertion.\<close>

definition steady_clock :: "nat \<Rightarrow> int" where
  "steady_clock i = 1000"

text \<open>
  An API whose clan leaderboards have one row and whose player leaderboards fail with a
  \<open>RequestException\<close>; and one whose every request fails so.
\<close>

definition players_fail :: http where
  "players_fail i req =
     (case req of
        ClanLeaderboard g sb \<Rightarrow> Json (Some [alpha_row (RInt 200)])
      | PlayerLeaderboard g sb \<Rightarrow> RequestException)"

definition all_fail :: http where
  "all_fail i req = RequestException"


section \<open>Facts about floats\<close>

lemma round_half_even_int: "round_half_even (of_int m) = m"
  by (simp add: round_half_even_def)

text \<open>An integer below \<open>2 ^ 53\<close> in magnitude is a double.\<close>

lemma round_to_double_int:
  assumes "\<bar>n\<bar> < 2 ^ 53"
  shows "round_to_double (of_int n) = Finite (of_int n)"
proof (cases "n = 0")
  case True
  then show ?thesis by (simp add: round_to_double_def)
next
  case False
  let ?x = "real_of_int n"
  let ?e = "\<lfloor>log 2 \<bar>?x\<bar>\<rfloor>"
  from False have x1: "1 \<le> \<bar>?x\<bar>" by linarith
  then have "0 \<le> log 2 \<bar>?x\<bar>" by simp
  then have e0: "0 \<le> ?e" by simp
  from assms have "\<bar>?x\<bar> < 2 ^ 53"
    by (metis of_int_abs of_int_less_numeral_power_cancel_iff)
  then have "log 2 \<bar>?x\<bar> < 53"
    using x1 by (simp add: log_less_iff powr_realpow flip: powr_numeral)
  then have e52: "?e \<le> 52" by linarith
  define k where "k = nat (52 - ?e)"
  have ulp: "double_ulp ?x = 1 / 2 ^ k"
  proof -
    have "max ?e (- 1022) = ?e" using e0 by simp
    then have "double_ulp ?x = 2 powr (real_of_int ?e - 52)" by (simp add: double_ulp_def)
    also have "real_of_int ?e - 52 = - real k" using e52 by (simp add: k_def)
    also have "2 powr (- real k) = 1 / 2 ^ k"
      by (simp add: powr_minus powr_realpow divide_simps)
    finally show ?thesis .
  qed
  have q: "?x / double_ulp ?x = of_int (n * 2 ^ k)"
    by (simp add: ulp)
  have y: "of_int (round_half_even (?x / double_ulp ?x)) * double_ulp ?x = ?x"
    unfolding q round_half_even_int by (simp add: ulp)
  have big: "\<bar>?x\<bar> < 2 powr 1024"
  proof -
    have "\<bar>?x\<bar> < 2 ^ 53" by fact
    also have "(2::real) ^ 53 \<le> 2 ^ 1024" by (rule power_increasing) simp_all
    also have "(2::real) ^ 1024 = 2 powr 1024" by (simp add: powr_realpow flip: powr_numeral)
    finally show ?thesis .
  qed
  from False y big show ?thesis
    by (simp add: round_to_double_def Let_def)
qed

lemma round_to_double_0 [simp]: "round_to_double 0 = Finite 0"
  by (simp add: round_to_double_def)

lemma round_to_double_1 [simp]: "round_to_double 1 = Finite 1"
  using round_to_double_int [of 1] by simp

lemma round_to_double_numeral [simp]:
  "(numeral k :: int) < 2 ^ 53 \<Longrightarrow> round_to_double (numeral k) = Finite (numeral k)"
  using round_to_double_int [of "numeral k"] by simp

lemma round_to_double_neg_numeral [simp]:
  "(numeral k :: int) < 2 ^ 53 \<Longrightarrow> round_to_double (- numeral k) = Finite (- numeral k)"
  using round_to_double_int [of "- numeral k"] by simp

lemma fsub_same: "fsub (Finite a) (Finite a) = Finite 0"
  by simp

lemma to_int_Inr_finite: "to_int x = Inr i \<Longrightarrow> \<exists>r. x = Finite r"
  by (cases x) simp_all

section \<open>Facts about the steps\<close>

lemma clan_stat_step_Value:
  assumes "to_float raw_val = Value v"
  shows "clan_stat_step ok g c rk (st, raw_val) (Returns n, s) =
     (let k = (g, lower c, st);
          d = (case WATCH_CLAN_LAST_VALUES s k of None \<Rightarrow> Finite 0 | Some l \<Rightarrow> fsub v l);
          s1 = s\<lparr>WATCH_CLAN_LAST_VALUES := (WATCH_CLAN_LAST_VALUES s)(k \<mapsto> v)\<rparr>
      in if fle d (Finite 0) then (Returns n, s1)
         else build_and_send ok (\<lambda>d c'. WatchAlert c st g d c' rk) d v n s1)"
  using assms by (simp add: clan_stat_step_def observe_def Let_def)

lemma player_stat_step_Value:
  assumes "to_float raw_val = Value v"
  shows "player_stat_step ok g sid u l rk (st, raw_val) (Returns n, s) =
     (let k = (g, sid, st);
          d = (case WATCH_PLAYER_LAST_VALUES s k of None \<Rightarrow> Finite 0 | Some p \<Rightarrow> fsub v p);
          s1 = s\<lparr>WATCH_PLAYER_LAST_VALUES := (WATCH_PLAYER_LAST_VALUES s)(k \<mapsto> v)\<rparr>
      in if fle d (Finite 0) then (Returns n, s1)
         else build_and_send ok (\<lambda>d c'. PlayerAlert u l st g d c' rk) d v n s1)"
  using assms by (simp add: player_stat_step_def observe_def Let_def)

lemma spike_row_step_valid:
  assumes "clan_name_raw_of r \<noteq> []" and "current_val_of r sb = Value v"
    and "rank_to_int (row_rank r) = Inr rk"
    and "add_clan_metric_snapshot mk (clan_name_raw_of r) rk (Some v) None clock s = Returns s1"
  shows "spike_row_step ok cfg clock (Some t) mk sb r (Returns n, s) =
     (let c = clan_name_raw_of r; k = (mk, c);
          d = (case LAST_CLAN_METRIC_VALUES s k of None \<Rightarrow> Finite 0 | Some l \<Rightarrow> fsub v l);
          s2 = s1\<lparr>LAST_CLAN_METRIC_VALUES := (LAST_CLAN_METRIC_VALUES s)(k \<mapsto> v)\<rparr>
      in if flt d (Finite t) then (Returns n, s2)
         else if lower c = lower (clan_name cfg) then (Returns n, s2)
         else build_and_send ok (\<lambda>d c'. SpikeAlert c mk d c' (row_rank r)) d v n s2)"
proof -
  from assms(4) have "LAST_CLAN_METRIC_VALUES s1 = LAST_CLAN_METRIC_VALUES s"
    by (auto simp: add_clan_metric_snapshot_def Let_def split: if_splits)
  with assms show ?thesis
    by (simp add: spike_row_step_def observe_def Let_def)
qed

text \<open>Inserting a snapshot with a 64-bit time stamp and rank.\<close>

lemma add_clan_metric_snapshot_Returns:
  assumes "sqlite_integer (clock (length (clan_metric_history s)))"
    and "case rk of None \<Rightarrow> True | Some k \<Rightarrow> sqlite_integer k"
  shows "add_clan_metric_snapshot mk c rk (Some v) None clock s =
     Returns (s\<lparr>clan_metric_history := clan_metric_history s @
        [\<lparr>snap_metric_key = mk, snap_clan_name = c,
          snap_ts = clock (length (clan_metric_history s)), snap_rank = rk,
          snap_value = (case v of NaN \<Rightarrow> None | _ \<Rightarrow> Some v)\<rparr>]\<rparr>)"
  using assms
  by (cases rk; cases v) (simp_all add: add_clan_metric_snapshot_def Let_def)

lemma alpha_row_name: "clan_name_raw_of (alpha_row v) = ''Alpha''"
  by (simp add: clan_name_raw_of_def alpha_row_def py_or_def strip_def is_space_def)

lemma alpha_row_val: "current_val_of (alpha_row v) ''looted_hackablecrate'' = to_float v"
  by (simp add: current_val_of_def alpha_row_def)

lemma alpha_row_rank: "row_rank (alpha_row v) = Rank 1"
  by (simp add: alpha_row_def)

lemma alpha_row_stats: "row_stats (alpha_row v) = [(''looted_hackablecrate'', v)]"
  by (simp add: alpha_row_def)

lemma alpha_row_steamId: "strip (row_steamId (alpha_row v)) = ''123''"
  by (simp add: alpha_row_def strip_def is_space_def)

lemma demo_settings_clan: "clan_name demo_settings = ''Walobots''"
  by (simp add: demo_settings_def)

lemma lower_Alpha: "lower ''Alpha'' = ''alpha''"
  by code_simp

lemma lower_Walobots: "lower ''Walobots'' = ''walobots''"
  by code_simp

lemma sqlite_integer_1000: "sqlite_integer 1000"
  by (simp add: sqlite_integer_def)

lemma sqlite_integer_1: "sqlite_integer 1"
  by (simp add: sqlite_integer_def)

lemma ALERT_THRESHOLDS_positive: "ALERT_THRESHOLDS mk = Some t \<Longrightarrow> 0 < t"
  by (auto simp: ALERT_THRESHOLDS_def split: if_splits)

lemma ALERT_THRESHOLDS_hackable: "ALERT_THRESHOLDS ''looted_hackable'' = Some 2"
  by (simp add: ALERT_THRESHOLDS_def)

subsection \<open>Lower case\<close>

lemma lower_char_idem: "lower_char (lower_char c) = lower_char c"
  by (simp add: lower_char_def Let_def)

lemma lower_idem: "lower (lower s) = lower s"
  by (simp add: lower_def lower_char_idem)

lemma lower_Nil_iff: "lower s = [] \<longleftrightarrow> s = []"
  by (simp add: lower_def)


section \<open>Claims about the delta engine\<close>

text \<open>
  C1, as stated, fails: the first observation of a key yields the delta \<open>0\<close>, the same
  delta as a second observation of an unchanged value; unseen and unchanged are not
  told apart.
\<close>

theorem first_observation_has_zero_delta:
  "fst (observe Map.empty (''looted_hackable'', ''Alpha'') (Finite 50)) = Finite 0
   \<and> fst (observe [(''looted_hackable'', ''Alpha'') \<mapsto> Finite 50] (''looted_hackable'', ''Alpha'')
            (Finite 50)) = Finite 0"
  by (simp add: observe_def)

text \<open>
  C1, amended. On the first observation of a key the value is stored and the delta is
  \<open>0\<close>, so no alert is attempted, whatever the value, be it finite, infinite or NaN: in
  the two watches because an alert needs a delta above \<open>0\<close>, in the spike detector
  because every threshold of \<open>ALERT_THRESHOLDS\<close> is positive (the snapshot is still
  appended, for a rank and a clock reading that fit their columns).
\<close>

theorem first_observation_stores_value_without_alert:
  assumes "cache key = None"
    and "WATCH_CLAN_LAST_VALUES s (g, lower c, st) = None"
    and "WATCH_PLAYER_LAST_VALUES s (g, sid, st) = None"
    and "to_float raw_val = Value v"
    and "clan_name_raw_of r \<noteq> []" and "current_val_of r sb = Value v"
    and "LAST_CLAN_METRIC_VALUES s (mk, clan_name_raw_of r) = None"
    and "ALERT_THRESHOLDS mk = Some t"
    and "rank_to_int (row_rank r) = Inr rank"
    and "case rank of None \<Rightarrow> True | Some k \<Rightarrow> sqlite_integer k"
    and "sqlite_integer (clock (length (clan_metric_history s)))"
  shows "observe cache key v = (Finite 0, cache(key \<mapsto> v))
       \<and> clan_stat_step ok g c rk (st, raw_val) (Returns n, s) =
           (Returns n,
            s\<lparr>WATCH_CLAN_LAST_VALUES := (WATCH_CLAN_LAST_VALUES s)((g, lower c, st) \<mapsto> v)\<rparr>)
       \<and> player_stat_step ok g sid u l rk (st, raw_val) (Returns n, s) =
           (Returns n,
            s\<lparr>WATCH_PLAYER_LAST_VALUES := (WATCH_PLAYER_LAST_VALUES s)((g, sid, st) \<mapsto> v)\<rparr>)
       \<and> spike_row_step ok cfg clock (ALERT_THRESHOLDS mk) mk sb r (Returns n, s) =
           (Returns n,
            s\<lparr>clan_metric_history := clan_metric_history s @
                    [\<lparr>snap_metric_key = mk, snap_clan_name = clan_name_raw_of r,
                      snap_ts = clock (length (clan_metric_history s)),
                      snap_rank = rank, snap_value = (case v of NaN \<Rightarrow> None | _ \<Rightarrow> Some v)\<rparr>],
                  LAST_CLAN_METRIC_VALUES :=
                    (LAST_CLAN_METRIC_VALUES s)((mk, clan_name_raw_of r) \<mapsto> v)\<rparr>)"
proof -
  note snap = add_clan_metric_snapshot_Returns [where clock = clock and s = s and rk = rank
      and mk = mk and c = "clan_name_raw_of r" and v = v, OF assms(11) assms(10)]
  from ALERT_THRESHOLDS_positive [OF assms(8)] have t: "0 < t" .
  have a: "observe cache key v = (Finite 0, cache(key \<mapsto> v))"
    using assms(1) by (simp add: observe_def)
  have b: "clan_stat_step ok g c rk (st, raw_val) (Returns n, s) =
           (Returns n,
            s\<lparr>WATCH_CLAN_LAST_VALUES := (WATCH_CLAN_LAST_VALUES s)((g, lower c, st) \<mapsto> v)\<rparr>)"
    using assms(2) by (simp add: clan_stat_step_Value [OF assms(4)] Let_def)
  have c: "player_stat_step ok g sid u l rk (st, raw_val) (Returns n, s) =
           (Returns n,
            s\<lparr>WATCH_PLAYER_LAST_VALUES := (WATCH_PLAYER_LAST_VALUES s)((g, sid, st) \<mapsto> v)\<rparr>)"
    using assms(3) by (simp add: player_stat_step_Value [OF assms(4)] Let_def)
  have d: "spike_row_step ok cfg clock (ALERT_THRESHOLDS mk) mk sb r (Returns n, s) =
           (Returns n,
            s\<lparr>clan_metric_history := clan_metric_history s @
                    [\<lparr>snap_metric_key = mk, snap_clan_name = clan_name_raw_of r,
                      snap_ts = clock (length (clan_metric_history s)),
                      snap_rank = rank, snap_value = (case v of NaN \<Rightarrow> None | _ \<Rightarrow> Some v)\<rparr>],
                  LAST_CLAN_METRIC_VALUES :=
                    (LAST_CLAN_METRIC_VALUES s)((mk, clan_name_raw_of r) \<mapsto> v)\<rparr>)"
    unfolding assms(8)
    using assms(7) t
    by (simp add: spike_row_step_valid [OF assms(5) assms(6) assms(9) snap] Let_def)
  from a b c d show ?thesis by simp
qed

theorem first_observation_stores_value_without_alert_witness:
  "LAST_CLAN_METRIC_VALUES fresh_state (''looted_hackable'', clan_name_raw_of (alpha_row (RInt 50))) = None
   \<and> ALERT_THRESHOLDS ''looted_hackable'' = Some 2
   \<and> clan_name_raw_of (alpha_row (RInt 50)) = ''Alpha''
   \<and> current_val_of (alpha_row (RInt 50)) ''looted_hackablecrate'' = Value (Finite 50)
   \<and> outbox (snd (spike_row_step (\<lambda>i. True) demo_settings steady_clock
                (ALERT_THRESHOLDS ''looted_hackable'')
                ''looted_hackable'' ''looted_hackablecrate'' (alpha_row (RInt 50))
                (Returns 0, fresh_state))) = []
   \<and> LAST_CLAN_METRIC_VALUES
        (snd (spike_row_step (\<lambda>i. True) demo_settings steady_clock
                (ALERT_THRESHOLDS ''looted_hackable'')
                ''looted_hackable'' ''looted_hackablecrate'' (alpha_row (RInt 50))
                (Returns 0, fresh_state)))
        (''looted_hackable'', ''Alpha'') = Some (Finite 50)
   \<and> map snap_value (clan_metric_history
        (snd (spike_row_step (\<lambda>i. True) demo_settings steady_clock
                (ALERT_THRESHOLDS ''looted_hackable'')
                ''looted_hackable'' ''looted_hackablecrate'' (alpha_row (RInt 50))
                (Returns 0, fresh_state)))) = [Some (Finite 50)]
   \<and> outbox (snd (clan_stat_step (\<lambda>i. True) ''looted'' ''Alpha'' (Rank 1)
                (''looted_hackablecrate'', RInt 50) (Returns 0, fresh_state))) = []
   \<and> WATCH_CLAN_LAST_VALUES
        (snd (clan_stat_step (\<lambda>i. True) ''looted'' ''Alpha'' (Rank 1)
                (''looted_hackablecrate'', RInt 50) (Returns 0, fresh_state)))
        (''looted'', ''alpha'', ''looted_hackablecrate'') = Some (Finite 50)
   \<and> outbox (snd (player_stat_step (\<lambda>i. True) ''looted'' ''123'' ''Bob'' ''Raiders'' (Rank 1)
                (''looted_hackablecrate'', RInt 50) (Returns 0, fresh_state))) = []
   \<and> WATCH_PLAYER_LAST_VALUES
        (snd (player_stat_step (\<lambda>i. True) ''looted'' ''123'' ''Bob'' ''Raiders'' (Rank 1)
                (''looted_hackablecrate'', RInt 50) (Returns 0, fresh_state)))
        (''looted'', ''123'', ''looted_hackablecrate'') = Some (Finite 50)"
proof -
  have h1: "(Map.empty :: string \<rightharpoonup> pyfloat) ''k'' = None" by simp
  have h2: "WATCH_CLAN_LAST_VALUES fresh_state (''looted'', lower ''Alpha'', ''looted_hackablecrate'') = None"
    by (simp add: fresh_state_def)
  have h3: "WATCH_PLAYER_LAST_VALUES fresh_state (''looted'', ''123'', ''looted_hackablecrate'') = None"
    by (simp add: fresh_state_def)
  have h4: "to_float (RInt 50) = Value (Finite 50)" by simp
  have h5: "clan_name_raw_of (alpha_row (RInt 50)) \<noteq> []" by (simp add: alpha_row_name)
  have h6: "current_val_of (alpha_row (RInt 50)) ''looted_hackablecrate'' = Value (Finite 50)"
    by (simp add: alpha_row_val)
  have h7: "LAST_CLAN_METRIC_VALUES fresh_state
              (''looted_hackable'', clan_name_raw_of (alpha_row (RInt 50))) = None"
    by (simp add: fresh_state_def)
  note h8 = ALERT_THRESHOLDS_hackable
  have h9: "rank_to_int (row_rank (alpha_row (RInt 50))) = Inr (Some 1)"
    by (simp add: alpha_row_rank)
  have h10: "case Some (1::int) of None \<Rightarrow> True | Some k \<Rightarrow> sqlite_integer k"
    by (simp add: sqlite_integer_1)
  have h11: "sqlite_integer (steady_clock (length (clan_metric_history fresh_state)))"
    by (simp add: steady_clock_def sqlite_integer_1000)
  note t = first_observation_stores_value_without_alert [where cache = "Map.empty"
        and key = "''k''" and s = fresh_state and g = "''looted''" and c = "''Alpha''"
        and st = "''looted_hackablecrate''" and sid = "''123''" and r = "alpha_row (RInt 50)"
        and sb = "''looted_hackablecrate''" and mk = "''looted_hackable''"
        and ok = "\<lambda>i. True" and rk = "Rank 1" and n = 0 and u = "''Bob''" and l = "''Raiders''"
        and cfg = demo_settings and clock = steady_clock,
        OF h1 h2 h3 h4 h5 h6 h7 h8 h9 h10 h11]
  show ?thesis
    using t h6 h7 h8
    by (simp add: alpha_row_name lower_Alpha fresh_state_def)
qed


section \<open>Claims about the trend view\<close>

lemma render_lines_rel:
  "render_lines rs = Inr ls \<Longrightarrow> list_all2 (\<lambda>r l. fst (snd r) = Finite (row_delta l)) rs ls"
proof (induction rs arbitrary: ls)
  case Nil
  then show ?case by simp
next
  case (Cons r rs)
  obtain clan d e k where r: "r = (clan, d, e, k)" by (cases r) auto
  from Cons.prems obtain l ls' where l: "render_line r = Inr l"
    and ls': "render_lines rs = Inr ls'" and ls: "ls = l # ls'"
    by (auto split: sum.splits)
  from l have "d = Finite (row_delta l)"
    unfolding r by (cases d; cases e) (auto simp: row_delta_def split: sum.splits)
  with Cons.IH [OF ls'] show ?case by (simp add: ls r)
qed

lemma trend_field_of_Lines:
  assumes "trend_field_of trend = Lines ls"
  shows "sorted_wrt (\<lambda>a b. row_delta a \<ge> row_delta b) ls \<and> length ls \<le> 5
       \<and> (\<forall>r \<in> set ls. 0 < row_delta r)"
proof -
  define rows where "rows = map (\<lambda>(clan, info).
      (clan, fsub (ch_end info) (ch_start info), ch_end info, ch_rank info)) trend"
  define srt where "srt = sort_key (\<lambda>r. desc_key (fst (snd r))) rows"
  define shown where "shown = filter (\<lambda>r. \<not> fle (fst (snd r)) (Finite 0)) (take 5 srt)"
  from assms have "render_lines shown = Inr ls"
    by (auto simp: trend_field_of_def Let_def rows_def srt_def shown_def
        split: if_splits sum.splits)
  from render_lines_rel [OF this]
  have rel: "list_all2 (\<lambda>r l. fst (snd r) = Finite (row_delta l)) shown ls" .
  then have len: "length ls = length shown" by (simp add: list_all2_lengthD)
  have nth: "fst (snd (shown ! i)) = Finite (row_delta (ls ! i))" if "i < length ls" for i
    using rel that by (simp add: list_all2_conv_all_nth)
  have "sorted (map (\<lambda>r. desc_key (fst (snd r))) srt)"
    unfolding srt_def by (rule sorted_sort_key)
  then have "sorted_wrt (\<lambda>a b. desc_key (fst (snd a)) \<le> desc_key (fst (snd b))) srt"
    by (simp add: sorted_map)
  then have srt: "sorted_wrt (\<lambda>a b. desc_key (fst (snd a)) \<le> desc_key (fst (snd b))) shown"
    unfolding shown_def by (intro sorted_wrt_filter sorted_wrt_take)
  have "sorted_wrt (\<lambda>a b. row_delta a \<ge> row_delta b) ls"
  proof (unfold sorted_wrt_iff_nth_less, intro allI impI)
    fix i j assume ij: "i < j" "j < length ls"
    with srt len have "desc_key (fst (snd (shown ! i))) \<le> desc_key (fst (snd (shown ! j)))"
      by (simp add: sorted_wrt_iff_nth_less)
    with ij nth [of i] nth [of j] show "row_delta (ls ! j) \<le> row_delta (ls ! i)"
      by (simp add: less_eq_prod_def)
  qed
  moreover have "length ls \<le> 5"
    unfolding len shown_def by (rule order_trans [OF length_filter_le]) simp
  moreover have "\<forall>l \<in> set ls. 0 < row_delta l"
  proof
    fix l assume "l \<in> set ls"
    then obtain i where i: "i < length ls" "l = ls ! i" by (auto simp: in_set_conv_nth)
    with len have "shown ! i \<in> set shown" by simp
    then have "\<not> fle (fst (snd (shown ! i))) (Finite 0)" unfolding shown_def by simp
    with nth [OF i(1)] i(2) show "0 < row_delta l" by simp
  qed
  ultimately show ?thesis by blast
qed

lemma tie_state_changes:
  "get_clan_metric_changes ''looted_hackable'' 12 300 tie_state =
     Returns [(''Alpha'', \<lparr>ch_start = Finite 0, ch_end = Finite 10, ch_rank = 1\<rparr>),
              (''Beta'', \<lparr>ch_start = Finite 0, ch_end = Finite 10, ch_rank = 2\<rparr>)]"
  by code_simp

lemma tie_state_view:
  "trend_view ''looted_hackable'' 300 tie_state
     = Lines [(''Alpha'', 10, 10, 1), (''Beta'', 10, 10, 2)]"
  by (simp add: trend_view_def tie_state_changes trend_field_of_def Let_def less_eq_prod_def)

text \<open>
  C3, as stated, fails: the sort is descending but not strictly so. Two subjects with
  the same positive gain are both listed, with equal deltas.
\<close>

theorem equal_gains_are_both_listed:
  "trend_view ''looted_hackable'' 300 tie_state
     = Lines [(''Alpha'', 10, 10, 1), (''Beta'', 10, 10, 2)]
   \<and> row_delta (''Alpha'', 10, 10, 1) = row_delta (''Beta'', 10, 10, 2)
   \<and> \<not> sorted_wrt (\<lambda>a b. row_delta a > row_delta b) [(''Alpha'', 10, 10, 1), (''Beta'', 10, 10, 2)]"
  by (simp add: tie_state_view row_delta_def)

text \<open>
  C3, amended. The lines of a metric's trend field are in descending order of delta
  (equal deltas may follow each other), at most five, and each has a delta above
  \<open>0\<close>.
\<close>

theorem trend_lines_descending_top5_positive:
  assumes "trend_view mk now s = Lines ls"
  shows "sorted_wrt (\<lambda>a b. row_delta a \<ge> row_delta b) ls \<and> length ls \<le> 5
       \<and> (\<forall>r \<in> set ls. 0 < row_delta r)"
proof -
  from assms obtain trend where "trend_field_of trend = Lines ls"
    by (auto simp: trend_view_def split: outcome.splits)
  then show ?thesis by (rule trend_field_of_Lines)
qed

theorem trend_lines_descending_top5_positive_witness:
  "trend_view ''looted_hackable'' 300 tie_state
     = Lines [(''Alpha'', 10, 10, 1), (''Beta'', 10, 10, 2)]
   \<and> sorted_wrt (\<lambda>a b. row_delta a \<ge> row_delta b) [(''Alpha'', 10, 10, 1), (''Beta'', 10, 10, 2)]
   \<and> length [(''Alpha'', 10 :: real, 10 :: real, 1 :: int), (''Beta'', 10, 10, 2)] \<le> 5
   \<and> list_all (\<lambda>r. 0 < row_delta r) [(''Alpha'', 10, 10, 1), (''Beta'', 10, 10, 2)]"
proof -
  note h = tie_state_view
  show ?thesis
    using trend_lines_descending_top5_positive [OF h] h by simp
qed

section \<open>Claims about the watch registry\<close>

text \<open>
  C8, as stated, fails for the empty name: \<open>add_watch_clan\<close> returns at once on it
  (storage.py lines 251-252), so the list does not include it afterwards.
\<close>

theorem empty_name_is_not_added:
  "get_watch_clans (add_watch_clan [] fresh_state) = {''alpha''}
   \<and> lower [] \<notin> get_watch_clans (add_watch_clan [] fresh_state)"
  by (simp add: get_watch_clans_def add_watch_clan_def fresh_state_def lower_def)

text \<open>
  C8, amended. For every non-empty clan name and a registry of lower-case names: after
  adding the name, the list holds its lower-case form (so it is found when compared
  case-insensitively); after removing it, no listed name equals it case-insensitively;
  adding twice is adding once, removing twice is removing once, and the registry keeps
  holding lower-case names only.
\<close>

theorem watch_clan_round_trip:
  assumes "nm \<noteq> []" and "\<forall>x \<in> watch_clans s. lower x = x"
  shows "lower nm \<in> get_watch_clans (add_watch_clan nm s)
       \<and> (\<exists>x \<in> get_watch_clans (add_watch_clan nm s). lower x = lower nm)
       \<and> lower nm \<notin> get_watch_clans (remove_watch_clan nm s)
       \<and> \<not> (\<exists>x \<in> get_watch_clans (remove_watch_clan nm s). lower x = lower nm)
       \<and> \<not> (\<exists>x \<in> get_watch_clans (remove_watch_clan nm (add_watch_clan nm s)). lower x = lower nm)
       \<and> add_watch_clan nm (add_watch_clan nm s) = add_watch_clan nm s
       \<and> remove_watch_clan nm (remove_watch_clan nm s) = remove_watch_clan nm s
       \<and> get_watch_clans (add_watch_clan nm s) = insert (lower nm) (get_watch_clans s)
       \<and> get_watch_clans (remove_watch_clan nm s) = get_watch_clans s - {lower nm}
       \<and> (\<forall>x \<in> watch_clans (add_watch_clan nm s). lower x = x)
       \<and> (\<forall>x \<in> watch_clans (remove_watch_clan nm s). lower x = x)"
  using assms
  by (auto simp: get_watch_clans_def add_watch_clan_def remove_watch_clan_def lower_idem)

theorem watch_clan_round_trip_witness:
  "''Alpha'' \<noteq> []
   \<and> get_watch_clans (add_watch_clan ''Alpha'' (add_watch_clan ''BETA'' fresh_state)) = {''alpha'', ''beta''}
   \<and> get_watch_clans (remove_watch_clan ''ALPHA'' fresh_state) = {}
   \<and> lower ''Alpha'' \<in> get_watch_clans (add_watch_clan ''Alpha'' fresh_state)
   \<and> lower ''Alpha'' \<notin> get_watch_clans (remove_watch_clan ''Alpha'' fresh_state)"
proof -
  have h1: "''Alpha'' \<noteq> []" by simp
  have h2: "\<forall>x \<in> watch_clans fresh_state. lower x = x"
    by (simp add: fresh_state_def lower_def lower_char_def)
  have a: "get_watch_clans (add_watch_clan ''Alpha'' (add_watch_clan ''BETA'' fresh_state)) = {''alpha'', ''beta''}"
    by code_simp
  have b: "get_watch_clans (remove_watch_clan ''ALPHA'' fresh_state) = {}"
    by code_simp
  show ?thesis
    using watch_clan_round_trip [OF h1 h2] a b by simp
qed


section \<open>Claims about alerts and snapshots on a non-finite value\<close>

text \<open>
  The text of an alert holds \<open>int(delta)\<close> and \<open>int(current_val)\<close>, and it is built
  before the \<open>try\<close> that guards the send (watchers.py lines 117-123, 201-207 and
  289-294). \<open>int\<close> raises on an infinity and on NaN, so a value that \<open>float\<close> converts
  to an infinity ends the watcher with an exception once a finite value is cached for
  its key.
\<close>

lemma lower_Beta: "lower ''Beta'' = ''beta''"
  by code_simp

lemma named_row_name_Beta: "clan_name_raw_of (named_row ''Beta'' v) = ''Beta''"
  by (simp add: clan_name_raw_of_def named_row_def py_or_def strip_def is_space_def)

lemma named_row_val: "current_val_of (named_row nm v) ''looted_hackablecrate'' = to_float v"
  by (simp add: current_val_of_def named_row_def)

lemma named_row_rank: "row_rank (named_row nm v) = RankNone"
  by (simp add: named_row_def)

lemma seen_state_watched: "lower ` get_watch_clans (seen_state v) = {''alpha''}"
  by (simp add: get_watch_clans_def seen_state_def lower_def lower_char_def)

text \<open>
  C2 fails on such a value. Clan \<open>Alpha\<close>, not the exempt clan, had 50 hackable crates
  and now reports an infinite count: the delta is infinite, so it is at least the
  threshold 2 and above 0, yet neither the spike detector nor the clan watch hands an
  alert to the channel; both end with \<open>OverflowError\<close>, the cache and the snapshot
  written.
\<close>

theorem infinite_delta_raises_before_alert:
  "log_top_and_detect_spikes (\<lambda>i. True) demo_settings steady_clock ''looted_hackable''
     [alpha_row (RFloat PosInf)] ''looted_hackablecrate'' (seen_state (Finite 50))
   = (Raises OverflowError,
      (seen_state (Finite 50))
        \<lparr>LAST_CLAN_METRIC_VALUES := [(''looted_hackable'', ''Alpha'') \<mapsto> PosInf],
         clan_metric_history :=
           [\<lparr>snap_metric_key = ''looted_hackable'', snap_clan_name = ''Alpha'', snap_ts = 1000,
             snap_rank = Some 1, snap_value = Some PosInf\<rparr>]\<rparr>)
   \<and> outbox (seen_state (Finite 50)) = []
   \<and> ALERT_THRESHOLDS ''looted_hackable'' = Some 2
   \<and> fst (observe (LAST_CLAN_METRIC_VALUES (seen_state (Finite 50)))
            (''looted_hackable'', ''Alpha'') PosInf) = PosInf
   \<and> fle (Finite 2) PosInf
   \<and> lower ''Alpha'' \<noteq> lower (clan_name demo_settings)
   \<and> track_watch_clan_all_stats (\<lambda>i. True) ''looted'' [alpha_row (RFloat PosInf)]
        (seen_state (Finite 50))
      = (Raises OverflowError,
         (seen_state (Finite 50))
           \<lparr>WATCH_CLAN_LAST_VALUES :=
              [(''looted'', ''alpha'', ''looted_hackablecrate'') \<mapsto> PosInf]\<rparr>)
   \<and> flt (Finite 0) PosInf"
  by (simp add: log_top_and_detect_spikes_def ALERT_THRESHOLDS_hackable TREND_TOP_N_def
      spike_row_step_def alpha_row_name alpha_row_val alpha_row_rank alpha_row_stats
      add_clan_metric_snapshot_def steady_clock_def sqlite_integer_def observe_def
      build_and_send_def lower_Alpha lower_Walobots demo_settings_clan Let_def
      track_watch_clan_all_stats_def seen_state_watched clan_row_step_def clan_stat_step_def)
    (simp add: seen_state_def)

text \<open>
  C5 fails on such a value. \<open>Beta\<close>, the second of two rows, has a name and a numeric
  value, but the spike detector ends with \<open>OverflowError\<close> while it builds the alert
  for \<open>Alpha\<close>, the first row, and never reaches \<open>Beta\<close>: the history holds a snapshot
  of \<open>Alpha\<close> only. With a finite value for \<open>Alpha\<close> both rows are recorded.
\<close>

theorem row_after_infinite_value_is_not_recorded:
  "fst (log_top_and_detect_spikes (\<lambda>i. True) demo_settings steady_clock ''looted_hackable''
          [alpha_row (RFloat PosInf), named_row ''Beta'' (RInt 1)] ''looted_hackablecrate''
          (seen_state (Finite 50))) = Raises OverflowError
   \<and> map snap_clan_name (clan_metric_history
        (snd (log_top_and_detect_spikes (\<lambda>i. True) demo_settings steady_clock ''looted_hackable''
          [alpha_row (RFloat PosInf), named_row ''Beta'' (RInt 1)] ''looted_hackablecrate''
          (seen_state (Finite 50))))) = [''Alpha'']
   \<and> length [alpha_row (RFloat PosInf), named_row ''Beta'' (RInt 1)] \<le> TREND_TOP_N
   \<and> clan_name_raw_of (named_row ''Beta'' (RInt 1)) = ''Beta''
   \<and> current_val_of (named_row ''Beta'' (RInt 1)) ''looted_hackablecrate'' = Value (Finite 1)
   \<and> map snap_clan_name (clan_metric_history
        (snd (log_top_and_detect_spikes (\<lambda>i. True) demo_settings steady_clock ''looted_hackable''
          [alpha_row (RInt 200), named_row ''Beta'' (RInt 1)] ''looted_hackablecrate''
          (seen_state (Finite 50))))) = [''Alpha'', ''Beta'']"
  by (simp add: seen_state_def log_top_and_detect_spikes_def ALERT_THRESHOLDS_hackable
      TREND_TOP_N_def spike_row_step_def alpha_row_name alpha_row_val alpha_row_rank
      named_row_name_Beta named_row_val named_row_rank
      add_clan_metric_snapshot_def steady_clock_def sqlite_integer_def observe_def
      build_and_send_def send_alert_def lower_Alpha lower_Beta lower_Walobots
      demo_settings_clan Let_def)

section \<open>Facts about the runs of the watchers\<close>

subsection \<open>Exceptions end a run\<close>

lemma clan_stat_step_Raises [simp]:
  "clan_stat_step ok g c rk item (Raises e, s) = (Raises e, s)"
  by (cases item) (simp add: clan_stat_step_def)

lemma player_stat_step_Raises [simp]:
  "player_stat_step ok g sid u l rk item (Raises e, s) = (Raises e, s)"
  by (cases item) (simp add: player_stat_step_def)

lemma clan_row_step_Raises [simp]:
  "clan_row_step ok g w r (Raises e, s) = (Raises e, s)"
  by (simp add: clan_row_step_def)

lemma player_row_step_Raises [simp]:
  "player_row_step ok cfg g w r (Raises e, s) = (Raises e, s)"
  by (simp add: player_row_step_def)

lemma spike_row_step_Raises [simp]:
  "spike_row_step ok cfg clock t mk sb r (Raises e, s) = (Raises e, s)"
  by (simp add: spike_row_step_def)

lemma fold_Raises:
  assumes "\<And>x e s. f x (Raises e, s) = (Raises e, s)"
  shows "fold f xs (Raises e, s) = (Raises e, s)"
  by (induction xs) (simp_all add: assms)

subsection \<open>Building and sending an alert\<close>

lemma build_and_send_cases:
  "build_and_send ok msg d v n s =
     (case to_int d of
        Inl e \<Rightarrow> (Raises e, s)
      | Inr d' \<Rightarrow>
         (case to_int v of
            Inl e \<Rightarrow> (Raises e, s)
          | Inr v' \<Rightarrow> (Returns (if ok (length (outbox s)) then n + 1 else n),
                        s\<lparr>outbox := outbox s @ [msg d' v']\<rparr>)))"
  by (simp add: build_and_send_def send_alert_def split: sum.splits)

lemma build_and_send_fields:
  "WATCH_CLAN_LAST_VALUES (snd (build_and_send ok msg d v n s)) = WATCH_CLAN_LAST_VALUES s"
  "WATCH_PLAYER_LAST_VALUES (snd (build_and_send ok msg d v n s)) = WATCH_PLAYER_LAST_VALUES s"
  "LAST_CLAN_METRIC_VALUES (snd (build_and_send ok msg d v n s)) = LAST_CLAN_METRIC_VALUES s"
  "clan_metric_history (snd (build_and_send ok msg d v n s)) = clan_metric_history s"
  "watch_players (snd (build_and_send ok msg d v n s)) = watch_players s"
  "watch_clans (snd (build_and_send ok msg d v n s)) = watch_clans s"
  by (simp_all add: build_and_send_cases split: sum.splits)

subsection \<open>Replaying observations\<close>

lemma replay_Nil [simp]: "replay [] cache = cache"
  by (simp add: replay_def)

lemma replay_append: "replay (p @ q) cache = replay q (replay p cache)"
  by (simp add: replay_def)

lemma replay_single [simp]: "replay [(k, x)] cache = cache(k \<mapsto> x)"
  by (simp add: replay_def)

lemma replay_lookup:
  "replay p cache k = (case map_of (rev p) k of None \<Rightarrow> cache k | Some x \<Rightarrow> Some x)"
proof (induction p rule: rev_induct)
  case Nil
  then show ?case by simp
next
  case (snoc a p)
  obtain k' x where a: "a = (k', x)" by (cases a)
  show ?case
    using snoc by (simp add: a replay_append)
qed

lemma fold_observed:
  fixes f :: "'x \<Rightarrow> nat outcome \<times> bot_state \<Rightarrow> nat outcome \<times> bot_state"
    and cache :: "bot_state \<Rightarrow> ('k \<rightharpoonup> pyfloat)"
  assumes stop: "\<And>x e s. f x (Raises e, s) = (Raises e, s)"
    and step: "\<And>x n s. \<exists>p q. obs x = p @ q
        \<and> cache (snd (f x (Returns n, s))) = replay p (cache s)
        \<and> (status (fst (f x (Returns n, s))) = None \<longrightarrow> q = [])"
  shows "\<exists>p q. concat (map obs xs) = p @ q
        \<and> cache (snd (fold f xs (Returns n, s))) = replay p (cache s)
        \<and> (status (fst (fold f xs (Returns n, s))) = None \<longrightarrow> q = [])"
proof (induction xs arbitrary: n s)
  case Nil
  show ?case by simp
next
  case (Cons x xs)
  from step [of x n s] obtain p where "\<exists>q. obs x = p @ q
        \<and> cache (snd (f x (Returns n, s))) = replay p (cache s)
        \<and> (status (fst (f x (Returns n, s))) = None \<longrightarrow> q = [])" ..
  then obtain q where pqr: "obs x = p @ q
        \<and> cache (snd (f x (Returns n, s))) = replay p (cache s)
        \<and> (status (fst (f x (Returns n, s))) = None \<longrightarrow> q = [])" ..
  note pq = pqr [THEN conjunct1] and c = pqr [THEN conjunct2, THEN conjunct1]
    and r = pqr [THEN conjunct2, THEN conjunct2]
  obtain res s1 where f: "f x (Returns n, s) = (res, s1)" by (cases "f x (Returns n, s)")
  from c f have c1: "cache s1 = replay p (cache s)" by simp
  show ?case
  proof (cases res)
    case (Raises e)
    have run: "fold f (x # xs) (Returns n, s) = (Raises e, s1)"
      by (simp add: f Raises fold_Raises [of f, OF stop])
    have a1: "concat (map obs (x # xs)) = p @ (q @ concat (map obs xs))"
      by (simp add: pq)
    have a2: "cache (snd (fold f (x # xs) (Returns n, s))) = replay p (cache s)"
      by (simp only: run snd_conv c1)
    have a3: "status (fst (fold f (x # xs) (Returns n, s))) = None
        \<longrightarrow> q @ concat (map obs xs) = []"
      by (simp only: run fst_conv status.simps) simp
    from a1 a2 a3 show ?thesis by (rule_tac x = p in exI, rule_tac x = "q @ concat (map obs xs)" in exI) (rule conjI, assumption, rule conjI, assumption, assumption)
  next
    case (Returns n1)
    with r f have q: "q = []" by simp
    from Cons.IH [of n1 s1] obtain p' where "\<exists>q'. concat (map obs xs) = p' @ q'
        \<and> cache (snd (fold f xs (Returns n1, s1))) = replay p' (cache s1)
        \<and> (status (fst (fold f xs (Returns n1, s1))) = None \<longrightarrow> q' = [])" ..
    then obtain q' where pqr': "concat (map obs xs) = p' @ q'
        \<and> cache (snd (fold f xs (Returns n1, s1))) = replay p' (cache s1)
        \<and> (status (fst (fold f xs (Returns n1, s1))) = None \<longrightarrow> q' = [])" ..
    note pq' = pqr' [THEN conjunct1] and c' = pqr' [THEN conjunct2, THEN conjunct1]
      and r' = pqr' [THEN conjunct2, THEN conjunct2]
    have run: "fold f (x # xs) (Returns n, s) = fold f xs (Returns n1, s1)"
      by (simp add: f Returns)
    have a1: "concat (map obs (x # xs)) = (p @ p') @ q'"
      by (simp add: pq q pq')
    have a2: "cache (snd (fold f (x # xs) (Returns n, s))) = replay (p @ p') (cache s)"
      by (simp only: run c' c1 replay_append)
    have a3: "status (fst (fold f (x # xs) (Returns n, s))) = None \<longrightarrow> q' = []"
      using r' by (simp only: run)
    from a1 a2 a3 show ?thesis by (rule_tac x = "p @ p'" in exI, rule_tac x = q' in exI) (rule conjI, assumption, rule conjI, assumption, assumption)
  qed
qed

lemma observedI:
  assumes "obs = p @ q" and "c' = replay p c" and "st = None \<longrightarrow> q = []"
  shows "\<exists>p q. obs = p @ q \<and> c' = replay p c \<and> (st = None \<longrightarrow> q = [])"
  using assms by (intro exI [of _ p] exI [of _ q] conjI)

subsection \<open>The observations of the clan watch\<close>

lemma clan_stat_step_observed:
  "\<exists>p q. clan_stat_observation g c item = p @ q
     \<and> WATCH_CLAN_LAST_VALUES (snd (clan_stat_step ok g c rk item (Returns n, s)))
         = replay p (WATCH_CLAN_LAST_VALUES s)
     \<and> (status (fst (clan_stat_step ok g c rk item (Returns n, s))) = None \<longrightarrow> q = [])"
proof -
  obtain k raw_val where item: "item = (k, raw_val)" by (cases item)
  show ?thesis
  proof (cases "to_float raw_val")
    case (Value v)
    have "clan_stat_observation g c item = [((g, lower c, k), v)] @ []"
      by (simp add: clan_stat_observation_def item Value)
    moreover have "WATCH_CLAN_LAST_VALUES (snd (clan_stat_step ok g c rk item (Returns n, s)))
         = replay [((g, lower c, k), v)] (WATCH_CLAN_LAST_VALUES s)"
      by (simp add: item clan_stat_step_Value [OF Value] Let_def build_and_send_fields)
    ultimately show ?thesis by (rule observedI) simp
  next
    case NotNumeric
    then show ?thesis
      by (simp add: item clan_stat_observation_def clan_stat_step_def)
  next
    case TooLarge
    then show ?thesis
      by (simp add: item clan_stat_observation_def clan_stat_step_def)
  qed
qed

lemma clan_row_step_observed:
  "\<exists>p q. clan_row_observations g w r = p @ q
     \<and> WATCH_CLAN_LAST_VALUES (snd (clan_row_step ok g w r (Returns n, s)))
         = replay p (WATCH_CLAN_LAST_VALUES s)
     \<and> (status (fst (clan_row_step ok g w r (Returns n, s))) = None \<longrightarrow> q = [])"
proof (cases "clan_name_raw_of r \<noteq> [] \<and> lower (clan_name_raw_of r) \<in> w")
  case True
  then have "clan_row_step ok g w r (Returns n, s) =
      fold (clan_stat_step ok g (clan_name_raw_of r) (row_rank r)) (row_stats r) (Returns n, s)"
    and "clan_row_observations g w r =
      concat (map (clan_stat_observation g (clan_name_raw_of r)) (row_stats r))"
    by (simp_all add: clan_row_step_def clan_row_observations_def)
  then show ?thesis
    using fold_observed [where f = "clan_stat_step ok g (clan_name_raw_of r) (row_rank r)"
        and obs = "clan_stat_observation g (clan_name_raw_of r)"
        and cache = WATCH_CLAN_LAST_VALUES and xs = "row_stats r" and n = n and s = s,
        OF clan_stat_step_Raises clan_stat_step_observed]
    by simp
next
  case False
  then have "clan_row_step ok g w r (Returns n, s) = (Returns n, s)"
    and "clan_row_observations g w r = []"
    by (auto simp: clan_row_step_def clan_row_observations_def Let_def)
  then show ?thesis by simp
qed

lemma track_watch_clan_observed:
  "\<exists>p q. clan_watch_observations g s rows = p @ q
     \<and> WATCH_CLAN_LAST_VALUES (snd (track_watch_clan_all_stats ok g rows s))
         = replay p (WATCH_CLAN_LAST_VALUES s)
     \<and> (status (fst (track_watch_clan_all_stats ok g rows s)) = None \<longrightarrow> q = [])"
proof (cases "lower ` get_watch_clans s = {}")
  case True
  then have "clan_row_observations g (lower ` get_watch_clans s) r = []" for r
    by (simp add: clan_row_observations_def)
  then have "clan_watch_observations g s rows = []"
    by (simp add: clan_watch_observations_def)
  moreover from True have "track_watch_clan_all_stats ok g rows s = (Returns 0, s)"
    by (simp add: track_watch_clan_all_stats_def)
  ultimately show ?thesis by simp
next
  case False
  then have "track_watch_clan_all_stats ok g rows s =
      fold (clan_row_step ok g (lower ` get_watch_clans s)) rows (Returns 0, s)"
    by (cases rows) (simp_all add: track_watch_clan_all_stats_def Let_def)
  then show ?thesis
    using fold_observed [where f = "clan_row_step ok g (lower ` get_watch_clans s)"
        and obs = "clan_row_observations g (lower ` get_watch_clans s)"
        and cache = WATCH_CLAN_LAST_VALUES and xs = rows and n = 0 and s = s,
        OF clan_row_step_Raises clan_row_step_observed]
    by (simp add: clan_watch_observations_def)
qed

subsection \<open>The observations of the player watch\<close>

lemma player_stat_step_observed:
  "\<exists>p q. player_stat_observation g sid item = p @ q
     \<and> WATCH_PLAYER_LAST_VALUES (snd (player_stat_step ok g sid u l rk item (Returns n, s)))
         = replay p (WATCH_PLAYER_LAST_VALUES s)
     \<and> (status (fst (player_stat_step ok g sid u l rk item (Returns n, s))) = None \<longrightarrow> q = [])"
proof -
  obtain k raw_val where item: "item = (k, raw_val)" by (cases item)
  show ?thesis
  proof (cases "to_float raw_val")
    case (Value v)
    have "player_stat_observation g sid item = [((g, sid, k), v)] @ []"
      by (simp add: player_stat_observation_def item Value)
    moreover have "WATCH_PLAYER_LAST_VALUES (snd (player_stat_step ok g sid u l rk item (Returns n, s)))
         = replay [((g, sid, k), v)] (WATCH_PLAYER_LAST_VALUES s)"
      by (simp add: item player_stat_step_Value [OF Value] Let_def build_and_send_fields)
    ultimately show ?thesis by (rule observedI) simp
  next
    case NotNumeric
    then show ?thesis
      by (simp add: item player_stat_observation_def player_stat_step_def)
  next
    case TooLarge
    then show ?thesis
      by (simp add: item player_stat_observation_def player_stat_step_def)
  qed
qed

lemma player_row_step_tracked:
  assumes "tracked cfg w r"
  shows "player_row_step ok cfg g w r (Returns n, s) =
      fold (player_stat_step ok g (strip (row_steamId r)) (username_of r)
              (clan_label_of (player_clan_overrides cfg) (strip (row_steamId r)) r) (row_rank r))
        (row_stats r) (Returns n, s)"
  using assms by (auto simp: player_row_step_def tracked_def Let_def split: if_splits)

lemma player_row_step_untracked:
  assumes "\<not> tracked cfg w r"
  shows "player_row_step ok cfg g w r acc = acc"
  using assms
  by (cases acc; cases "fst acc")
    (auto simp: player_row_step_def tracked_def Let_def split: if_splits)

lemma player_row_step_observed:
  "\<exists>p q. player_row_observations cfg w g r = p @ q
     \<and> WATCH_PLAYER_LAST_VALUES (snd (player_row_step ok cfg g w r (Returns n, s)))
         = replay p (WATCH_PLAYER_LAST_VALUES s)
     \<and> (status (fst (player_row_step ok cfg g w r (Returns n, s))) = None \<longrightarrow> q = [])"
proof (cases "tracked cfg w r")
  case True
  then have "player_row_observations cfg w g r =
      concat (map (player_stat_observation g (strip (row_steamId r))) (row_stats r))"
    by (simp add: player_row_observations_def)
  then show ?thesis
    using fold_observed [where f = "player_stat_step ok g (strip (row_steamId r)) (username_of r)
              (clan_label_of (player_clan_overrides cfg) (strip (row_steamId r)) r) (row_rank r)"
        and obs = "player_stat_observation g (strip (row_steamId r))"
        and cache = WATCH_PLAYER_LAST_VALUES and xs = "row_stats r" and n = n and s = s,
        OF player_stat_step_Raises player_stat_step_observed]
    by (simp add: player_row_step_tracked [OF True])
next
  case False
  then show ?thesis
    by (simp add: player_row_step_untracked player_row_observations_def)
qed

lemma track_watch_players_observed:
  "\<exists>p q. player_watch_observations cfg s g rows = p @ q
     \<and> WATCH_PLAYER_LAST_VALUES (snd (track_watch_players_all_stats ok cfg g rows s))
         = replay p (WATCH_PLAYER_LAST_VALUES s)
     \<and> (status (fst (track_watch_players_all_stats ok cfg g rows s)) = None \<longrightarrow> q = [])"
proof (cases "get_watch_players s = {} \<and> player_clan_overrides cfg = []")
  case True
  then have "\<not> tracked cfg (get_watch_players s) r" for r
    by (simp add: tracked_def)
  then have "player_watch_observations cfg s g rows = []"
    by (simp add: player_watch_observations_def player_row_observations_def)
  moreover from True have "track_watch_players_all_stats ok cfg g rows s = (Returns 0, s)"
    by (simp add: track_watch_players_all_stats_def)
  ultimately show ?thesis by simp
next
  case False
  then have "track_watch_players_all_stats ok cfg g rows s =
      fold (player_row_step ok cfg g (get_watch_players s)) rows (Returns 0, s)"
    by (cases rows) (auto simp: track_watch_players_all_stats_def Let_def)
  then show ?thesis
    using fold_observed [where f = "player_row_step ok cfg g (get_watch_players s)"
        and obs = "player_row_observations cfg (get_watch_players s) g"
        and cache = WATCH_PLAYER_LAST_VALUES and xs = rows and n = 0 and s = s,
        OF player_row_step_Raises player_row_step_observed]
    by (simp add: player_watch_observations_def)
qed

subsection \<open>The observations of the spike detector\<close>

lemma add_clan_metric_snapshot_fields:
  assumes "add_clan_metric_snapshot mk c rk v ts clock s = Returns s1"
  shows "LAST_CLAN_METRIC_VALUES s1 = LAST_CLAN_METRIC_VALUES s"
    and "WATCH_CLAN_LAST_VALUES s1 = WATCH_CLAN_LAST_VALUES s"
    and "WATCH_PLAYER_LAST_VALUES s1 = WATCH_PLAYER_LAST_VALUES s"
    and "outbox s1 = outbox s"
    and "length (clan_metric_history s1) = Suc (length (clan_metric_history s))"
  using assms by (auto simp: add_clan_metric_snapshot_def Let_def split: if_splits)

lemma spike_row_step_observed:
  "\<exists>p q. spike_row_observation mk sb r = p @ q
     \<and> LAST_CLAN_METRIC_VALUES
         (snd (spike_row_step ok cfg clock (ALERT_THRESHOLDS mk) mk sb r (Returns n, s)))
         = replay p (LAST_CLAN_METRIC_VALUES s)
     \<and> (status (fst (spike_row_step ok cfg clock (ALERT_THRESHOLDS mk) mk sb r (Returns n, s)))
          = None \<longrightarrow> q = [])"
proof (cases "clan_name_raw_of r = []")
  case True
  then show ?thesis
    by (simp add: spike_row_observation_def spike_row_step_def)
next
  case name: False
  show ?thesis
  proof (cases "current_val_of r sb")
    case NotNumeric
    with name show ?thesis
      by (simp add: spike_row_observation_def spike_row_step_def)
  next
    case TooLarge
    with name show ?thesis
      by (simp add: spike_row_observation_def spike_row_step_def)
  next
    case (Value v)
    let ?res = "spike_row_step ok cfg clock (ALERT_THRESHOLDS mk) mk sb r (Returns n, s)"
    show ?thesis
    proof (cases "rank_to_int (row_rank r)")
      case (Inl e)
      with name Value have "?res = (Raises e, s)"
        by (simp add: spike_row_step_def)
      then show ?thesis
        by (intro exI [of _ "[]"] exI [of _ "spike_row_observation mk sb r"]) simp
    next
      case (Inr rk)
      show ?thesis
      proof (cases "add_clan_metric_snapshot mk (clan_name_raw_of r) rk (Some v) None clock s")
        case (Raises e)
        with name Value Inr have "?res = (Raises e, s)"
          by (simp add: spike_row_step_def)
        then show ?thesis
          by (intro exI [of _ "[]"] exI [of _ "spike_row_observation mk sb r"]) simp
      next
        case (Returns s1)
        note f = add_clan_metric_snapshot_fields [OF Returns]
        show ?thesis
        proof (cases "ALERT_THRESHOLDS mk")
          case None
          with name Value Inr Returns have "?res = (Returns n, s1)"
            by (simp add: spike_row_step_def)
          with None name f(1) show ?thesis
            by (simp add: spike_row_observation_def)
        next
          case (Some t)
          have "spike_row_observation mk sb r = [((mk, clan_name_raw_of r), v)] @ []"
            using name Some Value by (simp add: spike_row_observation_def)
          moreover have "LAST_CLAN_METRIC_VALUES (snd ?res)
              = replay [((mk, clan_name_raw_of r), v)] (LAST_CLAN_METRIC_VALUES s)"
            unfolding Some
            by (simp add: spike_row_step_valid [OF name Value Inr Returns] Let_def
                build_and_send_fields f(1))
          ultimately show ?thesis by (rule observedI) simp
        qed
      qed
    qed
  qed
qed

lemma log_top_observed:
  "\<exists>p q. spike_observations mk sb rows = p @ q
     \<and> LAST_CLAN_METRIC_VALUES (snd (log_top_and_detect_spikes ok cfg clock mk rows sb s))
         = replay p (LAST_CLAN_METRIC_VALUES s)
     \<and> (status (fst (log_top_and_detect_spikes ok cfg clock mk rows sb s)) = None \<longrightarrow> q = [])"
proof -
  have "log_top_and_detect_spikes ok cfg clock mk rows sb s =
      fold (spike_row_step ok cfg clock (ALERT_THRESHOLDS mk) mk sb) (take TREND_TOP_N rows)
        (Returns 0, s)"
    by (cases rows) (simp_all add: log_top_and_detect_spikes_def Let_def)
  then show ?thesis
    using fold_observed [where f = "spike_row_step ok cfg clock (ALERT_THRESHOLDS mk) mk sb"
        and obs = "spike_row_observation mk sb"
        and cache = LAST_CLAN_METRIC_VALUES and xs = "take TREND_TOP_N rows" and n = 0 and s = s,
        OF spike_row_step_Raises spike_row_step_observed]
    by (simp add: spike_observations_def)
qed


subsection \<open>A leaderboard of one row\<close>

lemma track_watch_clan_single:
  assumes "clan_name_raw_of r \<noteq> []"
    and "lower (clan_name_raw_of r) \<in> lower ` get_watch_clans s"
    and "row_stats r = [(k, raw_val)]" and "to_float raw_val = Value v"
  shows "track_watch_clan_all_stats ok g [r] s =
     (let key = (g, lower (clan_name_raw_of r), k);
          d = (case WATCH_CLAN_LAST_VALUES s key of None \<Rightarrow> Finite 0 | Some l \<Rightarrow> fsub v l);
          s1 = s\<lparr>WATCH_CLAN_LAST_VALUES := (WATCH_CLAN_LAST_VALUES s)(key \<mapsto> v)\<rparr>
      in if fle d (Finite 0) then (Returns 0, s1)
         else build_and_send ok (\<lambda>d c. WatchAlert (clan_name_raw_of r) k g d c (row_rank r))
                d v 0 s1)"
proof -
  from assms(2) have ne: "lower ` get_watch_clans s \<noteq> {}" by blast
  have "track_watch_clan_all_stats ok g [r] s =
      clan_stat_step ok g (clan_name_raw_of r) (row_rank r) (k, raw_val) (Returns 0, s)"
    using assms(1,2) ne
    by (simp add: track_watch_clan_all_stats_def clan_row_step_def assms(3) Let_def)
  then show ?thesis
    by (simp only: clan_stat_step_Value [OF assms(4)])
qed

lemma track_watch_players_single:
  assumes "tracked cfg (get_watch_players s) r"
    and "row_stats r = [(k, raw_val)]" and "to_float raw_val = Value v"
  shows "track_watch_players_all_stats ok cfg g [r] s =
     (let key = (g, strip (row_steamId r), k);
          d = (case WATCH_PLAYER_LAST_VALUES s key of None \<Rightarrow> Finite 0 | Some l \<Rightarrow> fsub v l);
          s1 = s\<lparr>WATCH_PLAYER_LAST_VALUES := (WATCH_PLAYER_LAST_VALUES s)(key \<mapsto> v)\<rparr>
      in if fle d (Finite 0) then (Returns 0, s1)
         else build_and_send ok
                (\<lambda>d c. PlayerAlert (username_of r)
                         (clan_label_of (player_clan_overrides cfg) (strip (row_steamId r)) r)
                         k g d c (row_rank r))
                d v 0 s1)"
proof -
  from assms(1) have ne: "\<not> (get_watch_players s = {} \<and> player_clan_overrides cfg = [])"
    by (auto simp: tracked_def split: if_splits)
  have "track_watch_players_all_stats ok cfg g [r] s =
      player_row_step ok cfg g (get_watch_players s) r (Returns 0, s)"
    using ne by (auto simp: track_watch_players_all_stats_def Let_def)
  also have "\<dots> = player_stat_step ok g (strip (row_steamId r)) (username_of r)
        (clan_label_of (player_clan_overrides cfg) (strip (row_steamId r)) r) (row_rank r)
        (k, raw_val) (Returns 0, s)"
    by (simp add: player_row_step_tracked [OF assms(1)] assms(2))
  finally show ?thesis
    by (simp only: player_stat_step_Value [OF assms(3)])
qed

lemma log_top_single:
  assumes "clan_name_raw_of r \<noteq> []" and "current_val_of r sb = Value v"
    and "rank_to_int (row_rank r) = Inr rk"
    and "add_clan_metric_snapshot mk (clan_name_raw_of r) rk (Some v) None clock s = Returns s1"
    and "ALERT_THRESHOLDS mk = Some t"
  shows "log_top_and_detect_spikes ok cfg clock mk [r] sb s =
     (let c = clan_name_raw_of r; key = (mk, c);
          d = (case LAST_CLAN_METRIC_VALUES s key of None \<Rightarrow> Finite 0 | Some l \<Rightarrow> fsub v l);
          s2 = s1\<lparr>LAST_CLAN_METRIC_VALUES := (LAST_CLAN_METRIC_VALUES s)(key \<mapsto> v)\<rparr>
      in if flt d (Finite t) then (Returns 0, s2)
         else if lower c = lower (clan_name cfg) then (Returns 0, s2)
         else build_and_send ok (\<lambda>d c'. SpikeAlert c mk d c' (row_rank r)) d v 0 s2)"
proof -
  have "log_top_and_detect_spikes ok cfg clock mk [r] sb s =
      spike_row_step ok cfg clock (Some t) mk sb r (Returns 0, s)"
    by (simp add: log_top_and_detect_spikes_def assms(5) TREND_TOP_N_def)
  then show ?thesis
    by (simp only: spike_row_step_valid [OF assms(1-4)])
qed

section \<open>Claims about the last-value caches\<close>

text \<open>
  C4. With a value \<open>prev\<close> cached for a key, \<open>observe\<close> returns the float difference
  \<open>x - prev\<close> and stores \<open>x\<close>. So do the watchers: on a leaderboard of one row whose
  key has a cached value, the clan watch stores the new value and attempts an alert
  with that difference exactly when it is above \<open>0\<close> (a decrease only overwrites the
  cache), and the spike detector does the same against its threshold. On any
  leaderboard, the cache a watcher leaves is the old cache with the observations of the
  run replayed on it in order, all of them when the watcher returns and those made
  before the exception when it raises; so a key holds its most recent observation.
\<close>

theorem delta_is_difference_and_cache_overwritten:
  assumes "cache key = Some prev"
    and "clan_name_raw_of r \<noteq> []"
    and "lower (clan_name_raw_of r) \<in> lower ` get_watch_clans s"
    and "row_stats r = [(k, raw_val)]" and "to_float raw_val = Value v"
    and "WATCH_CLAN_LAST_VALUES s (g, lower (clan_name_raw_of r), k) = Some l"
    and "current_val_of r sb = Value v'"
    and "rank_to_int (row_rank r) = Inr rk"
    and "add_clan_metric_snapshot mk (clan_name_raw_of r) rk (Some v') None clock s = Returns s1"
    and "ALERT_THRESHOLDS mk = Some t"
    and "LAST_CLAN_METRIC_VALUES s (mk, clan_name_raw_of r) = Some l'"
  shows "observe cache key x = (fsub x prev, cache(key \<mapsto> x))
    \<and> track_watch_clan_all_stats ok g [r] s =
        (if fle (fsub v l) (Finite 0)
         then (Returns 0,
               s\<lparr>WATCH_CLAN_LAST_VALUES :=
                   (WATCH_CLAN_LAST_VALUES s)((g, lower (clan_name_raw_of r), k) \<mapsto> v)\<rparr>)
         else build_and_send ok (\<lambda>d c. WatchAlert (clan_name_raw_of r) k g d c (row_rank r))
                (fsub v l) v 0
                (s\<lparr>WATCH_CLAN_LAST_VALUES :=
                    (WATCH_CLAN_LAST_VALUES s)((g, lower (clan_name_raw_of r), k) \<mapsto> v)\<rparr>))
    \<and> log_top_and_detect_spikes ok cfg clock mk [r] sb s =
        (if flt (fsub v' l') (Finite t)
         then (Returns 0,
               s1\<lparr>LAST_CLAN_METRIC_VALUES :=
                    (LAST_CLAN_METRIC_VALUES s)((mk, clan_name_raw_of r) \<mapsto> v')\<rparr>)
         else if lower (clan_name_raw_of r) = lower (clan_name cfg)
         then (Returns 0,
               s1\<lparr>LAST_CLAN_METRIC_VALUES :=
                    (LAST_CLAN_METRIC_VALUES s)((mk, clan_name_raw_of r) \<mapsto> v')\<rparr>)
         else build_and_send ok (\<lambda>d c. SpikeAlert (clan_name_raw_of r) mk d c (row_rank r))
                (fsub v' l') v' 0
                (s1\<lparr>LAST_CLAN_METRIC_VALUES :=
                     (LAST_CLAN_METRIC_VALUES s)((mk, clan_name_raw_of r) \<mapsto> v')\<rparr>))
    \<and> (\<exists>p q. clan_watch_observations g s rows = p @ q
         \<and> WATCH_CLAN_LAST_VALUES (snd (track_watch_clan_all_stats ok g rows s))
             = replay p (WATCH_CLAN_LAST_VALUES s)
         \<and> (status (fst (track_watch_clan_all_stats ok g rows s)) = None \<longrightarrow> q = []))
    \<and> (\<exists>p q. player_watch_observations cfg s g rows = p @ q
         \<and> WATCH_PLAYER_LAST_VALUES (snd (track_watch_players_all_stats ok cfg g rows s))
             = replay p (WATCH_PLAYER_LAST_VALUES s)
         \<and> (status (fst (track_watch_players_all_stats ok cfg g rows s)) = None \<longrightarrow> q = []))
    \<and> (\<exists>p q. spike_observations mk sb rows = p @ q
         \<and> LAST_CLAN_METRIC_VALUES (snd (log_top_and_detect_spikes ok cfg clock mk rows sb s))
             = replay p (LAST_CLAN_METRIC_VALUES s)
         \<and> (status (fst (log_top_and_detect_spikes ok cfg clock mk rows sb s)) = None
              \<longrightarrow> q = []))
    \<and> replay obs cache key' =
        (case map_of (rev obs) key' of None \<Rightarrow> cache key' | Some y \<Rightarrow> Some y)"
proof -
  have a: "observe cache key x = (fsub x prev, cache(key \<mapsto> x))"
    using assms(1) by (simp add: observe_def)
  have b: "track_watch_clan_all_stats ok g [r] s =
        (if fle (fsub v l) (Finite 0)
         then (Returns 0,
               s\<lparr>WATCH_CLAN_LAST_VALUES :=
                   (WATCH_CLAN_LAST_VALUES s)((g, lower (clan_name_raw_of r), k) \<mapsto> v)\<rparr>)
         else build_and_send ok (\<lambda>d c. WatchAlert (clan_name_raw_of r) k g d c (row_rank r))
                (fsub v l) v 0
                (s\<lparr>WATCH_CLAN_LAST_VALUES :=
                    (WATCH_CLAN_LAST_VALUES s)((g, lower (clan_name_raw_of r), k) \<mapsto> v)\<rparr>))"
    by (simp add: track_watch_clan_single [OF assms(2-5)] assms(6) Let_def)
  have c: "log_top_and_detect_spikes ok cfg clock mk [r] sb s =
        (if flt (fsub v' l') (Finite t)
         then (Returns 0,
               s1\<lparr>LAST_CLAN_METRIC_VALUES :=
                    (LAST_CLAN_METRIC_VALUES s)((mk, clan_name_raw_of r) \<mapsto> v')\<rparr>)
         else if lower (clan_name_raw_of r) = lower (clan_name cfg)
         then (Returns 0,
               s1\<lparr>LAST_CLAN_METRIC_VALUES :=
                    (LAST_CLAN_METRIC_VALUES s)((mk, clan_name_raw_of r) \<mapsto> v')\<rparr>)
         else build_and_send ok (\<lambda>d c. SpikeAlert (clan_name_raw_of r) mk d c (row_rank r))
                (fsub v' l') v' 0
                (s1\<lparr>LAST_CLAN_METRIC_VALUES :=
                     (LAST_CLAN_METRIC_VALUES s)((mk, clan_name_raw_of r) \<mapsto> v')\<rparr>))"
    by (simp add: log_top_single [OF assms(2) assms(7-10)] assms(11) Let_def)
  note d = track_watch_clan_observed [of g s rows ok]
  note e = track_watch_players_observed [of cfg s g rows ok]
  note f = log_top_observed [of mk sb rows ok cfg clock s]
  note h = replay_lookup [of obs cache key']
  from a b c d e f h show ?thesis by (intro conjI)
qed


lemma seen_state_snapshot:
  "add_clan_metric_snapshot ''looted_hackable'' ''Alpha'' (Some 1) (Some (Finite x)) None
     steady_clock (seen_state v) =
   Returns ((seen_state v)\<lparr>clan_metric_history :=
      [\<lparr>snap_metric_key = ''looted_hackable'', snap_clan_name = ''Alpha'', snap_ts = 1000,
        snap_rank = Some 1, snap_value = Some (Finite x)\<rparr>]\<rparr>)"
  by (simp add: add_clan_metric_snapshot_def steady_clock_def sqlite_integer_def seen_state_def)

theorem delta_is_difference_and_cache_overwritten_witness:
  "fst (observe [(''looted_hackable'', ''Alpha'') \<mapsto> Finite 200] (''looted_hackable'', ''Alpha'')
          (Finite 190)) = Finite (- 10)
   \<and> track_watch_clan_all_stats (\<lambda>i. True) ''looted'' [alpha_row (RInt 190)]
        (seen_state (Finite 200))
      = (Returns 0,
         (seen_state (Finite 200))\<lparr>WATCH_CLAN_LAST_VALUES :=
            [(''looted'', ''alpha'', ''looted_hackablecrate'') \<mapsto> Finite 190]\<rparr>)
   \<and> log_top_and_detect_spikes (\<lambda>i. True) demo_settings steady_clock ''looted_hackable''
        [alpha_row (RInt 190)] ''looted_hackablecrate'' (seen_state (Finite 200))
      = (Returns 0,
         (seen_state (Finite 200))
           \<lparr>clan_metric_history :=
              [\<lparr>snap_metric_key = ''looted_hackable'', snap_clan_name = ''Alpha'',
                snap_ts = 1000, snap_rank = Some 1, snap_value = Some (Finite 190)\<rparr>],
            LAST_CLAN_METRIC_VALUES := [(''looted_hackable'', ''Alpha'') \<mapsto> Finite 190]\<rparr>)
   \<and> replay [(''k'', Finite 1), (''k'', Finite 2)] Map.empty ''k'' = Some (Finite 2)"
proof -
  have h1: "[(''looted_hackable'', ''Alpha'') \<mapsto> Finite 200] (''looted_hackable'', ''Alpha'')
      = Some (Finite 200)" by simp
  have h2: "clan_name_raw_of (alpha_row (RInt 190)) \<noteq> []" by (simp add: alpha_row_name)
  have h3: "lower (clan_name_raw_of (alpha_row (RInt 190)))
      \<in> lower ` get_watch_clans (seen_state (Finite 200))"
    by (simp add: alpha_row_name lower_Alpha seen_state_watched)
  note h4 = alpha_row_stats [of "RInt 190"]
  have h5: "to_float (RInt 190) = Value (Finite 190)" by simp
  have h6: "WATCH_CLAN_LAST_VALUES (seen_state (Finite 200))
      (''looted'', lower (clan_name_raw_of (alpha_row (RInt 190))), ''looted_hackablecrate'')
      = Some (Finite 200)"
    by (simp add: alpha_row_name lower_Alpha seen_state_def)
  have h7: "current_val_of (alpha_row (RInt 190)) ''looted_hackablecrate'' = Value (Finite 190)"
    by (simp add: alpha_row_val)
  have h8: "rank_to_int (row_rank (alpha_row (RInt 190))) = Inr (Some 1)"
    by (simp add: alpha_row_rank)
  have h9: "add_clan_metric_snapshot ''looted_hackable'' (clan_name_raw_of (alpha_row (RInt 190)))
      (Some 1) (Some (Finite 190)) None steady_clock (seen_state (Finite 200)) =
     Returns ((seen_state (Finite 200))\<lparr>clan_metric_history :=
      [\<lparr>snap_metric_key = ''looted_hackable'', snap_clan_name = ''Alpha'', snap_ts = 1000,
        snap_rank = Some 1, snap_value = Some (Finite 190)\<rparr>]\<rparr>)"
    by (simp only: alpha_row_name seen_state_snapshot)
  note h10 = ALERT_THRESHOLDS_hackable
  have h11: "LAST_CLAN_METRIC_VALUES (seen_state (Finite 200))
      (''looted_hackable'', clan_name_raw_of (alpha_row (RInt 190))) = Some (Finite 200)"
    by (simp add: alpha_row_name seen_state_def)
  note t = delta_is_difference_and_cache_overwritten [where cache =
        "[(''looted_hackable'', ''Alpha'') \<mapsto> Finite 200]"
        and key = "(''looted_hackable'', ''Alpha'')" and prev = "Finite 200" and x = "Finite 190"
        and r = "alpha_row (RInt 190)" and s = "seen_state (Finite 200)"
        and k = "''looted_hackablecrate''" and raw_val = "RInt 190" and v = "Finite 190"
        and g = "''looted''" and l = "Finite 200" and sb = "''looted_hackablecrate''"
        and v' = "Finite 190" and rk = "Some 1" and mk = "''looted_hackable''"
        and clock = steady_clock and t = 2 and l' = "Finite 200" and ok = "\<lambda>i. True"
        and cfg = demo_settings and rows = "[]"
        and obs = "[((''looted_hackable'', ''Alpha''), Finite 1),
                    ((''looted_hackable'', ''Alpha''), Finite 2)]"
        and key' = "(''looted_hackable'', ''Alpha'')",
        OF h1 h2 h3 h4 h5 h6 h7 h8 h9 h10 h11]
  have r: "replay [(''k'', Finite 1), (''k'', Finite 2)] Map.empty ''k'' = Some (Finite 2)"
    by (simp add: replay_def)
  show ?thesis
    using t r by (simp add: alpha_row_name lower_Alpha) (simp add: seen_state_def)
qed


section \<open>Facts about the sends of a run\<close>

subsection \<open>The state does not depend on the outcome of a send\<close>

lemma agree_refl [simp]: "agree a a"
  by (simp add: agree_def)

lemma agree_Raises [simp]: "agree (Raises e, s) (Raises e, s)"
  by (simp add: agree_def)

lemma agree_Returns [simp]: "agree (Returns n, s) (Returns m, s)"
  by (simp add: agree_def)

lemma agree_cases:
  assumes "agree a b"
  obtains (raised) e s where "a = (Raises e, s)" and "b = (Raises e, s)"
  | (returned) n m s where "a = (Returns n, s)" and "b = (Returns m, s)"
proof (cases a; cases b)
  fix oa sa ob sb assume a: "a = (oa, sa)" and b: "b = (ob, sb)"
  from assms have s: "sa = sb" and st: "status oa = status ob"
    by (simp_all add: agree_def a b)
  show thesis
  proof (cases oa)
    case (Raises e)
    with st have "ob = Raises e" by (cases ob) simp_all
    with Raises a b s show ?thesis by (intro raised [of e sb]) simp_all
  next
    case (Returns n)
    with st obtain m where "ob = Returns m" by (cases ob) simp_all
    with Returns a b s show ?thesis by (intro returned [of n sb m]) simp_all
  qed
qed

lemma fold_agree:
  assumes "\<And>x a b. agree a b \<Longrightarrow> agree (f x a) (g x b)"
  shows "agree a b \<Longrightarrow> agree (fold f xs a) (fold g xs b)"
  by (induction xs arbitrary: a b) (simp_all add: assms)

lemma build_and_send_agree:
  "agree (build_and_send ok msg d v n s) (build_and_send ok' msg d v m s)"
  by (simp add: build_and_send_cases split: sum.splits)

lemma clan_stat_step_agree:
  assumes "agree a b"
  shows "agree (clan_stat_step ok g c rk item a) (clan_stat_step ok' g c rk item b)"
  using assms
proof (cases rule: agree_cases)
  case (raised e s)
  then show ?thesis by simp
next
  case (returned n m s)
  obtain k raw_val where item: "item = (k, raw_val)" by (cases item)
  show ?thesis
  proof (cases "to_float raw_val")
    case (Value v)
    show ?thesis
      unfolding returned item
      by (simp add: clan_stat_step_Value [OF Value] Let_def build_and_send_agree)
  qed (simp_all add: returned item clan_stat_step_def)
qed

lemma player_stat_step_agree:
  assumes "agree a b"
  shows "agree (player_stat_step ok g sid u l rk item a) (player_stat_step ok' g sid u l rk item b)"
  using assms
proof (cases rule: agree_cases)
  case (raised e s)
  then show ?thesis by simp
next
  case (returned n m s)
  obtain k raw_val where item: "item = (k, raw_val)" by (cases item)
  show ?thesis
  proof (cases "to_float raw_val")
    case (Value v)
    show ?thesis
      unfolding returned item
      by (simp add: player_stat_step_Value [OF Value] Let_def build_and_send_agree)
  qed (simp_all add: returned item player_stat_step_def)
qed

lemma clan_row_step_agree:
  assumes "agree a b"
  shows "agree (clan_row_step ok g w r a) (clan_row_step ok' g w r b)"
  using assms
proof (cases rule: agree_cases)
  case (raised e s)
  then show ?thesis by simp
next
  case (returned n m s)
  have "agree (fold (clan_stat_step ok g (clan_name_raw_of r) (row_rank r)) (row_stats r)
                 (Returns n, s))
              (fold (clan_stat_step ok' g (clan_name_raw_of r) (row_rank r)) (row_stats r)
                 (Returns m, s))"
    by (rule fold_agree [OF clan_stat_step_agree]) simp_all
  then show ?thesis
    by (simp add: returned clan_row_step_def Let_def)
qed

lemma player_row_step_agree:
  assumes "agree a b"
  shows "agree (player_row_step ok cfg g w r a) (player_row_step ok' cfg g w r b)"
  using assms
proof (cases rule: agree_cases)
  case (raised e s)
  then show ?thesis by simp
next
  case (returned n m s)
  show ?thesis
  proof (cases "tracked cfg w r")
    case True
    have "agree (fold (player_stat_step ok g (strip (row_steamId r)) (username_of r)
              (clan_label_of (player_clan_overrides cfg) (strip (row_steamId r)) r) (row_rank r))
              (row_stats r) (Returns n, s))
            (fold (player_stat_step ok' g (strip (row_steamId r)) (username_of r)
              (clan_label_of (player_clan_overrides cfg) (strip (row_steamId r)) r) (row_rank r))
              (row_stats r) (Returns m, s))"
      by (rule fold_agree [OF player_stat_step_agree]) simp_all
    then show ?thesis
      by (simp add: returned player_row_step_tracked [OF True])
  next
    case False
    then show ?thesis
      by (simp add: returned player_row_step_untracked)
  qed
qed

lemma spike_row_step_agree:
  assumes "agree a b"
  shows "agree (spike_row_step ok cfg clock th mk sb r a) (spike_row_step ok' cfg clock th mk sb r b)"
  using assms
proof (cases rule: agree_cases)
  case (raised e s)
  then show ?thesis by simp
next
  case (returned n m s)
  show ?thesis
  proof (cases "clan_name_raw_of r = []")
    case True
    then show ?thesis by (simp add: returned spike_row_step_def)
  next
    case name: False
    show ?thesis
    proof (cases "current_val_of r sb")
      case (Value v)
      show ?thesis
      proof (cases "rank_to_int (row_rank r)")
        case (Inl e)
        with name Value show ?thesis by (simp add: returned spike_row_step_def)
      next
        case (Inr rk)
        show ?thesis
        proof (cases "add_clan_metric_snapshot mk (clan_name_raw_of r) rk (Some v) None clock s")
          case (Raises e)
          with name Value Inr show ?thesis by (simp add: returned spike_row_step_def)
        next
          case (Returns s1)
          show ?thesis
          proof (cases th)
            case None
            with name Value Inr Returns show ?thesis by (simp add: returned spike_row_step_def)
          next
            case (Some t)
            show ?thesis
              unfolding returned Some
              by (simp add: spike_row_step_valid [OF name Value Inr Returns] Let_def
                  build_and_send_agree)
          qed
        qed
      qed
    qed (simp_all add: returned name spike_row_step_def)
  qed
qed

lemma track_watch_clan_agree:
  "agree (track_watch_clan_all_stats ok g rows s) (track_watch_clan_all_stats ok' g rows s)"
proof -
  have "agree (fold (clan_row_step ok g (lower ` get_watch_clans s)) rows (Returns 0, s))
              (fold (clan_row_step ok' g (lower ` get_watch_clans s)) rows (Returns 0, s))"
    by (rule fold_agree [OF clan_row_step_agree]) simp_all
  then show ?thesis
    by (simp add: track_watch_clan_all_stats_def Let_def)
qed

lemma track_watch_players_agree:
  "agree (track_watch_players_all_stats ok cfg g rows s)
         (track_watch_players_all_stats ok' cfg g rows s)"
proof -
  have "agree (fold (player_row_step ok cfg g (get_watch_players s)) rows (Returns 0, s))
              (fold (player_row_step ok' cfg g (get_watch_players s)) rows (Returns 0, s))"
    by (rule fold_agree [OF player_row_step_agree]) simp_all
  then show ?thesis
    by (simp add: track_watch_players_all_stats_def Let_def)
qed

lemma log_top_agree:
  "agree (log_top_and_detect_spikes ok cfg clock mk rows sb s)
         (log_top_and_detect_spikes ok' cfg clock mk rows sb s)"
proof -
  have "agree (fold (spike_row_step ok cfg clock (ALERT_THRESHOLDS mk) mk sb)
                 (take TREND_TOP_N rows) (Returns 0, s))
              (fold (spike_row_step ok' cfg clock (ALERT_THRESHOLDS mk) mk sb)
                 (take TREND_TOP_N rows) (Returns 0, s))"
    by (rule fold_agree [OF spike_row_step_agree]) simp_all
  then show ?thesis
    by (simp add: log_top_and_detect_spikes_def Let_def)
qed

subsection \<open>Counting the sends that succeeded\<close>

lemma sent_between_refl: "sent_between ok s s = 0"
  by (simp add: sent_between_def)

lemma sent_between_trans:
  assumes "length (outbox s) \<le> length (outbox s')" and "length (outbox s') \<le> length (outbox s'')"
  shows "sent_between ok s s'' = sent_between ok s s' + sent_between ok s' s''"
proof -
  obtain k where k: "length (outbox s'') = length (outbox s') + k"
    using assms(2) le_Suc_ex by blast
  have "[length (outbox s)..<length (outbox s') + k]
      = [length (outbox s)..<length (outbox s')] @ [length (outbox s')..<length (outbox s') + k]"
    using assms(1) by (rule upt_add_eq_append)
  then show ?thesis
    by (simp add: sent_between_def k)
qed

lemma sent_between_outbox:
  assumes "outbox s' = outbox s"
  shows "sent_between ok s s' = 0" and "sent_between ok s0 s' = sent_between ok s0 s"
  using assms by (simp_all add: sent_between_def)

lemma build_and_send_counts:
  "length (outbox s) \<le> length (outbox (snd (build_and_send ok msg d v n s)))
   \<and> (\<forall>m. fst (build_and_send ok msg d v n s) = Returns m
         \<longrightarrow> m = n + sent_between ok s (snd (build_and_send ok msg d v n s)))"
  by (simp add: build_and_send_cases sent_between_def split: sum.splits)

lemma fold_counts:
  fixes f :: "'x \<Rightarrow> nat outcome \<times> bot_state \<Rightarrow> nat outcome \<times> bot_state"
  assumes stop: "\<And>x e s. f x (Raises e, s) = (Raises e, s)"
    and step: "\<And>x n s. length (outbox s) \<le> length (outbox (snd (f x (Returns n, s))))
                \<and> (\<forall>m. fst (f x (Returns n, s)) = Returns m
                      \<longrightarrow> m = n + sent_between ok s (snd (f x (Returns n, s))))"
  shows "length (outbox s) \<le> length (outbox (snd (fold f xs (Returns n, s))))
       \<and> (\<forall>m. fst (fold f xs (Returns n, s)) = Returns m
             \<longrightarrow> m = n + sent_between ok s (snd (fold f xs (Returns n, s))))"
proof (induction xs arbitrary: n s)
  case Nil
  show ?case by (simp add: sent_between_refl)
next
  case (Cons x xs)
  obtain res s1 where f: "f x (Returns n, s) = (res, s1)" by (cases "f x (Returns n, s)")
  from step [of s x n] f
  have 1: "length (outbox s) \<le> length (outbox s1)"
    and 2: "\<forall>m. res = Returns m \<longrightarrow> m = n + sent_between ok s s1" by simp_all
  show ?case
  proof (cases res)
    case (Raises e)
    have "fold f (x # xs) (Returns n, s) = (Raises e, s1)"
      by (simp add: f Raises fold_Raises [of f, OF stop])
    with 1 show ?thesis by simp
  next
    case (Returns n1)
    with 2 have n1: "n1 = n + sent_between ok s s1" by simp
    from Cons.IH [of s1 n1]
    have 3: "length (outbox s1) \<le> length (outbox (snd (fold f xs (Returns n1, s1))))"
      and 4: "\<forall>m. fst (fold f xs (Returns n1, s1)) = Returns m
                \<longrightarrow> m = n1 + sent_between ok s1 (snd (fold f xs (Returns n1, s1)))"
      by simp_all
    have run: "fold f (x # xs) (Returns n, s) = fold f xs (Returns n1, s1)"
      by (simp add: f Returns)
    from 1 3 have 5: "length (outbox s) \<le> length (outbox (snd (fold f xs (Returns n1, s1))))"
      by simp
    have 6: "\<forall>m. fst (fold f xs (Returns n1, s1)) = Returns m
                \<longrightarrow> m = n + sent_between ok s (snd (fold f xs (Returns n1, s1)))"
      using 4 n1 sent_between_trans [OF 1 3, of ok] by (simp add: add.assoc)
    from 5 6 show ?thesis unfolding run by (rule conjI)
  qed
qed

lemma clan_stat_step_counts:
  "length (outbox s) \<le> length (outbox (snd (clan_stat_step ok g c rk item (Returns n, s))))
   \<and> (\<forall>m. fst (clan_stat_step ok g c rk item (Returns n, s)) = Returns m
         \<longrightarrow> m = n + sent_between ok s (snd (clan_stat_step ok g c rk item (Returns n, s))))"
proof -
  obtain k raw_val where item: "item = (k, raw_val)" by (cases item)
  show ?thesis
  proof (cases "to_float raw_val")
    case (Value v)
    let ?s1 = "s\<lparr>WATCH_CLAN_LAST_VALUES := (WATCH_CLAN_LAST_VALUES s)((g, lower c, k) \<mapsto> v)\<rparr>"
    have o: "outbox ?s1 = outbox s" by simp
    show ?thesis
      unfolding item clan_stat_step_Value [OF Value] Let_def
      using build_and_send_counts [of ?s1 ok _ _ v n]
      by (simp add: sent_between_def)
  qed (simp_all add: item clan_stat_step_def sent_between_refl)
qed

lemma player_stat_step_counts:
  "length (outbox s) \<le> length (outbox (snd (player_stat_step ok g sid u l rk item (Returns n, s))))
   \<and> (\<forall>m. fst (player_stat_step ok g sid u l rk item (Returns n, s)) = Returns m
         \<longrightarrow> m = n + sent_between ok s (snd (player_stat_step ok g sid u l rk item (Returns n, s))))"
proof -
  obtain k raw_val where item: "item = (k, raw_val)" by (cases item)
  show ?thesis
  proof (cases "to_float raw_val")
    case (Value v)
    let ?s1 = "s\<lparr>WATCH_PLAYER_LAST_VALUES := (WATCH_PLAYER_LAST_VALUES s)((g, sid, k) \<mapsto> v)\<rparr>"
    show ?thesis
      unfolding item player_stat_step_Value [OF Value] Let_def
      using build_and_send_counts [of ?s1 ok _ _ v n]
      by (simp add: sent_between_def)
  qed (simp_all add: item player_stat_step_def sent_between_refl)
qed


lemma spike_row_step_counts:
  "length (outbox s) \<le> length (outbox (snd (spike_row_step ok cfg clock th mk sb r (Returns n, s))))
   \<and> (\<forall>m. fst (spike_row_step ok cfg clock th mk sb r (Returns n, s)) = Returns m
         \<longrightarrow> m = n + sent_between ok s (snd (spike_row_step ok cfg clock th mk sb r (Returns n, s))))"
proof (cases "clan_name_raw_of r = []")
  case True
  then show ?thesis by (simp add: spike_row_step_def sent_between_refl)
next
  case name: False
  show ?thesis
  proof (cases "current_val_of r sb")
    case (Value v)
    show ?thesis
    proof (cases "rank_to_int (row_rank r)")
      case (Inl e)
      with name Value show ?thesis by (simp add: spike_row_step_def)
    next
      case (Inr rk)
      show ?thesis
      proof (cases "add_clan_metric_snapshot mk (clan_name_raw_of r) rk (Some v) None clock s")
        case (Raises e)
        with name Value Inr show ?thesis by (simp add: spike_row_step_def)
      next
        case (Returns s1)
        note o = add_clan_metric_snapshot_fields(4) [OF Returns]
        show ?thesis
        proof (cases th)
          case None
          with name Value Inr Returns o show ?thesis
            by (simp add: spike_row_step_def sent_between_def)
        next
          case (Some t)
          let ?s2 = "s1\<lparr>LAST_CLAN_METRIC_VALUES :=
              (LAST_CLAN_METRIC_VALUES s)((mk, clan_name_raw_of r) \<mapsto> v)\<rparr>"
          show ?thesis
            unfolding Some spike_row_step_valid [OF name Value Inr Returns] Let_def
            using build_and_send_counts [of ?s2 ok _ _ v n] o
            by (simp add: sent_between_def)
        qed
      qed
    qed
  qed (simp_all add: name spike_row_step_def sent_between_refl)
qed

lemma clan_row_step_counts:
  "length (outbox s) \<le> length (outbox (snd (clan_row_step ok g w r (Returns n, s))))
   \<and> (\<forall>m. fst (clan_row_step ok g w r (Returns n, s)) = Returns m
         \<longrightarrow> m = n + sent_between ok s (snd (clan_row_step ok g w r (Returns n, s))))"
proof (cases "clan_name_raw_of r \<noteq> [] \<and> lower (clan_name_raw_of r) \<in> w")
  case True
  then have "clan_row_step ok g w r (Returns n, s) =
      fold (clan_stat_step ok g (clan_name_raw_of r) (row_rank r)) (row_stats r) (Returns n, s)"
    by (simp add: clan_row_step_def)
  then show ?thesis
    using fold_counts [where f = "clan_stat_step ok g (clan_name_raw_of r) (row_rank r)"
        and ok = ok and xs = "row_stats r" and n = n and s = s,
        OF clan_stat_step_Raises clan_stat_step_counts]
    by simp
next
  case False
  then have "clan_row_step ok g w r (Returns n, s) = (Returns n, s)"
    by (auto simp: clan_row_step_def Let_def)
  then show ?thesis by (simp add: sent_between_refl)
qed

lemma player_row_step_counts:
  "length (outbox s) \<le> length (outbox (snd (player_row_step ok cfg g w r (Returns n, s))))
   \<and> (\<forall>m. fst (player_row_step ok cfg g w r (Returns n, s)) = Returns m
         \<longrightarrow> m = n + sent_between ok s (snd (player_row_step ok cfg g w r (Returns n, s))))"
proof (cases "tracked cfg w r")
  case True
  show ?thesis
    unfolding player_row_step_tracked [OF True]
    by (rule fold_counts [OF player_stat_step_Raises player_stat_step_counts])
next
  case False
  then show ?thesis by (simp add: player_row_step_untracked sent_between_refl)
qed

lemma track_watch_clan_counts:
  assumes "fst (track_watch_clan_all_stats ok g rows s) = Returns m"
  shows "m = sent_between ok s (snd (track_watch_clan_all_stats ok g rows s))"
proof (cases "lower ` get_watch_clans s = {} \<or> rows = []")
  case True
  then have "track_watch_clan_all_stats ok g rows s = (Returns 0, s)"
    by (auto simp: track_watch_clan_all_stats_def Let_def)
  with assms show ?thesis by (simp add: sent_between_refl)
next
  case False
  then have "track_watch_clan_all_stats ok g rows s =
      fold (clan_row_step ok g (lower ` get_watch_clans s)) rows (Returns 0, s)"
    by (simp add: track_watch_clan_all_stats_def Let_def)
  with assms show ?thesis
    using fold_counts [where f = "clan_row_step ok g (lower ` get_watch_clans s)"
        and ok = ok and xs = rows and n = 0 and s = s,
        OF clan_row_step_Raises clan_row_step_counts]
    by simp
qed

lemma track_watch_players_counts:
  assumes "fst (track_watch_players_all_stats ok cfg g rows s) = Returns m"
  shows "m = sent_between ok s (snd (track_watch_players_all_stats ok cfg g rows s))"
proof (cases "(get_watch_players s = {} \<and> player_clan_overrides cfg = []) \<or> rows = []")
  case True
  then have "track_watch_players_all_stats ok cfg g rows s = (Returns 0, s)"
    by (auto simp: track_watch_players_all_stats_def Let_def)
  with assms show ?thesis by (simp add: sent_between_refl)
next
  case False
  then have "track_watch_players_all_stats ok cfg g rows s =
      fold (player_row_step ok cfg g (get_watch_players s)) rows (Returns 0, s)"
    by (auto simp: track_watch_players_all_stats_def Let_def)
  with assms show ?thesis
    using fold_counts [where f = "player_row_step ok cfg g (get_watch_players s)"
        and ok = ok and xs = rows and n = 0 and s = s,
        OF player_row_step_Raises player_row_step_counts]
    by simp
qed

lemma log_top_counts:
  assumes "fst (log_top_and_detect_spikes ok cfg clock mk rows sb s) = Returns m"
  shows "m = sent_between ok s (snd (log_top_and_detect_spikes ok cfg clock mk rows sb s))"
proof -
  have "log_top_and_detect_spikes ok cfg clock mk rows sb s =
      fold (spike_row_step ok cfg clock (ALERT_THRESHOLDS mk) mk sb) (take TREND_TOP_N rows)
        (Returns 0, s)"
    by (cases rows) (simp_all add: log_top_and_detect_spikes_def Let_def)
  with assms show ?thesis
    using fold_counts [where f = "spike_row_step ok cfg clock (ALERT_THRESHOLDS mk) mk sb"
        and ok = ok and xs = "take TREND_TOP_N rows" and n = 0 and s = s,
        OF spike_row_step_Raises spike_row_step_counts]
    by simp
qed


section \<open>Claims about failed sends\<close>

text \<open>
  C10. The three watchers leave the same state, and end with the same exception if any,
  whatever the outcomes of their sends; the outcomes only decide the count returned,
  which is the number of sends that succeeded. A send is attempted after the cache is
  overwritten, and for the spike detector after the snapshot is appended: on a
  leaderboard of one row whose value rose from a cached one, the clan watch returns with
  the new value cached and the alert handed to the channel, and the count is 1 or 0 as
  the send succeeds or fails; running it again on the same row, from that state, hands
  no further alert to the channel, so a delta whose send failed is not alerted again.
  The same holds for the spike detector, whose state also has the snapshot.
\<close>

theorem failed_send_leaves_state_as_successful_send:
  assumes "clan_name_raw_of r \<noteq> []"
    and "lower (clan_name_raw_of r) \<in> lower ` get_watch_clans s"
    and "row_stats r = [(k, raw_val)]" and "to_float raw_val = Value v"
    and "WATCH_CLAN_LAST_VALUES s (g, lower (clan_name_raw_of r), k) = Some l"
    and "\<not> fle (fsub v l) (Finite 0)"
    and "to_int (fsub v l) = Inr d" and "to_int v = Inr c"
    and "current_val_of r sb = Value v"
    and "rank_to_int (row_rank r) = Inr rk"
    and "case rk of None \<Rightarrow> True | Some i \<Rightarrow> sqlite_integer i"
    and "sqlite_integer (clock (length (clan_metric_history s)))"
    and "sqlite_integer (clock (Suc (length (clan_metric_history s))))"
    and "ALERT_THRESHOLDS mk = Some t"
    and "LAST_CLAN_METRIC_VALUES s (mk, clan_name_raw_of r) = Some l'"
    and "\<not> flt (fsub v l') (Finite t)"
    and "lower (clan_name_raw_of r) \<noteq> lower (clan_name cfg)"
    and "to_int (fsub v l') = Inr d'"
  shows "agree (track_watch_clan_all_stats ok g rows s) (track_watch_clan_all_stats ok' g rows s)
    \<and> agree (track_watch_players_all_stats ok cfg g rows s)
            (track_watch_players_all_stats ok' cfg g rows s)
    \<and> agree (log_top_and_detect_spikes ok cfg clock mk rows sb s)
            (log_top_and_detect_spikes ok' cfg clock mk rows sb s)
    \<and> (\<forall>m. fst (track_watch_clan_all_stats ok g rows s) = Returns m
          \<longrightarrow> m = sent_between ok s (snd (track_watch_clan_all_stats ok g rows s)))
    \<and> (\<forall>m. fst (track_watch_players_all_stats ok cfg g rows s) = Returns m
          \<longrightarrow> m = sent_between ok s (snd (track_watch_players_all_stats ok cfg g rows s)))
    \<and> (\<forall>m. fst (log_top_and_detect_spikes ok cfg clock mk rows sb s) = Returns m
          \<longrightarrow> m = sent_between ok s (snd (log_top_and_detect_spikes ok cfg clock mk rows sb s)))
    \<and> track_watch_clan_all_stats ok g [r] s =
        (Returns (if ok (length (outbox s)) then 1 else 0),
         s\<lparr>WATCH_CLAN_LAST_VALUES :=
              (WATCH_CLAN_LAST_VALUES s)((g, lower (clan_name_raw_of r), k) \<mapsto> v),
           outbox := outbox s @ [WatchAlert (clan_name_raw_of r) k g d c (row_rank r)]\<rparr>)
    \<and> track_watch_clan_all_stats ok' g [r]
         (s\<lparr>WATCH_CLAN_LAST_VALUES :=
              (WATCH_CLAN_LAST_VALUES s)((g, lower (clan_name_raw_of r), k) \<mapsto> v),
            outbox := outbox s @ [WatchAlert (clan_name_raw_of r) k g d c (row_rank r)]\<rparr>) =
        (Returns 0,
         s\<lparr>WATCH_CLAN_LAST_VALUES :=
              (WATCH_CLAN_LAST_VALUES s)((g, lower (clan_name_raw_of r), k) \<mapsto> v),
           outbox := outbox s @ [WatchAlert (clan_name_raw_of r) k g d c (row_rank r)]\<rparr>)
    \<and> log_top_and_detect_spikes ok cfg clock mk [r] sb s =
        (Returns (if ok (length (outbox s)) then 1 else 0),
         s\<lparr>clan_metric_history := clan_metric_history s @
              [\<lparr>snap_metric_key = mk, snap_clan_name = clan_name_raw_of r,
                snap_ts = clock (length (clan_metric_history s)), snap_rank = rk,
                snap_value = Some v\<rparr>],
           LAST_CLAN_METRIC_VALUES :=
              (LAST_CLAN_METRIC_VALUES s)((mk, clan_name_raw_of r) \<mapsto> v),
           outbox := outbox s @ [SpikeAlert (clan_name_raw_of r) mk d' c (row_rank r)]\<rparr>)
    \<and> log_top_and_detect_spikes ok' cfg clock mk [r] sb
         (s\<lparr>clan_metric_history := clan_metric_history s @
              [\<lparr>snap_metric_key = mk, snap_clan_name = clan_name_raw_of r,
                snap_ts = clock (length (clan_metric_history s)), snap_rank = rk,
                snap_value = Some v\<rparr>],
           LAST_CLAN_METRIC_VALUES :=
              (LAST_CLAN_METRIC_VALUES s)((mk, clan_name_raw_of r) \<mapsto> v),
           outbox := outbox s @ [SpikeAlert (clan_name_raw_of r) mk d' c (row_rank r)]\<rparr>) =
        (Returns 0,
         s\<lparr>clan_metric_history := clan_metric_history s @
              [\<lparr>snap_metric_key = mk, snap_clan_name = clan_name_raw_of r,
                snap_ts = clock (length (clan_metric_history s)), snap_rank = rk,
                snap_value = Some v\<rparr>,
               \<lparr>snap_metric_key = mk, snap_clan_name = clan_name_raw_of r,
                snap_ts = clock (Suc (length (clan_metric_history s))), snap_rank = rk,
                snap_value = Some v\<rparr>],
           LAST_CLAN_METRIC_VALUES :=
              (LAST_CLAN_METRIC_VALUES s)((mk, clan_name_raw_of r) \<mapsto> v),
           outbox := outbox s @ [SpikeAlert (clan_name_raw_of r) mk d' c (row_rank r)]\<rparr>)"
proof -
  from to_int_Inr_finite [OF assms(8)] obtain x where v: "v = Finite x" by blast
  from ALERT_THRESHOLDS_positive [OF assms(14)] have t: "0 < t" .
  let ?key = "(g, lower (clan_name_raw_of r), k)"
  let ?s1 = "s\<lparr>WATCH_CLAN_LAST_VALUES := (WATCH_CLAN_LAST_VALUES s)(?key \<mapsto> v),
           outbox := outbox s @ [WatchAlert (clan_name_raw_of r) k g d c (row_rank r)]\<rparr>"
  let ?snap = "\<lambda>i. \<lparr>snap_metric_key = mk, snap_clan_name = clan_name_raw_of r,
                snap_ts = clock i, snap_rank = rk, snap_value = Some v\<rparr>"
  let ?s2 = "s\<lparr>clan_metric_history :=
                clan_metric_history s @ [?snap (length (clan_metric_history s))],
           LAST_CLAN_METRIC_VALUES :=
              (LAST_CLAN_METRIC_VALUES s)((mk, clan_name_raw_of r) \<mapsto> v),
           outbox := outbox s @ [SpikeAlert (clan_name_raw_of r) mk d' c (row_rank r)]\<rparr>"
  have c1: "track_watch_clan_all_stats ok g [r] s =
      (Returns (if ok (length (outbox s)) then 1 else 0), ?s1)"
    using assms(5-8)
    by (simp add: track_watch_clan_single [OF assms(1-4)] Let_def build_and_send_cases)
  have w1: "lower (clan_name_raw_of r) \<in> lower ` get_watch_clans ?s1"
    using assms(2) by (simp add: get_watch_clans_def)
  have c2: "track_watch_clan_all_stats ok' g [r] ?s1 = (Returns 0, ?s1)"
    unfolding track_watch_clan_single [OF assms(1) w1 assms(3,4)]
    by (simp add: Let_def v)
  have snap1: "add_clan_metric_snapshot mk (clan_name_raw_of r) rk (Some v) None clock s =
      Returns (s\<lparr>clan_metric_history :=
                clan_metric_history s @ [?snap (length (clan_metric_history s))]\<rparr>)"
    using add_clan_metric_snapshot_Returns [where clock = clock and s = s and rk = rk
        and mk = mk and c = "clan_name_raw_of r" and v = v, OF assms(12) assms(11)]
    by (simp add: v)
  have d1: "log_top_and_detect_spikes ok cfg clock mk [r] sb s =
      (Returns (if ok (length (outbox s)) then 1 else 0), ?s2)"
    using assms(15-18) assms(8)
    by (simp add: log_top_single [OF assms(1) assms(9,10) snap1 assms(14)] Let_def
        build_and_send_cases)
  have snap2: "add_clan_metric_snapshot mk (clan_name_raw_of r) rk (Some v) None clock ?s2 =
      Returns (?s2\<lparr>clan_metric_history :=
                clan_metric_history s @ [?snap (length (clan_metric_history s)),
                  ?snap (Suc (length (clan_metric_history s)))]\<rparr>)"
    using add_clan_metric_snapshot_Returns [where clock = clock and s = ?s2 and rk = rk
        and mk = mk and c = "clan_name_raw_of r" and v = v] assms(11,13)
    by (simp add: v)
  have d2: "log_top_and_detect_spikes ok' cfg clock mk [r] sb ?s2 =
      (Returns 0, ?s2\<lparr>clan_metric_history :=
                clan_metric_history s @ [?snap (length (clan_metric_history s)),
                  ?snap (Suc (length (clan_metric_history s)))]\<rparr>)"
    unfolding log_top_single [OF assms(1) assms(9,10) snap2 assms(14)]
    using t by (simp add: Let_def v)
  note a1 = track_watch_clan_agree [of ok g rows s ok']
  note a2 = track_watch_players_agree [of ok cfg g rows s ok']
  note a3 = log_top_agree [of ok cfg clock mk rows sb s ok']
  have b1: "\<forall>m. fst (track_watch_clan_all_stats ok g rows s) = Returns m
          \<longrightarrow> m = sent_between ok s (snd (track_watch_clan_all_stats ok g rows s))"
    by (intro allI impI) (rule track_watch_clan_counts)
  have b2: "\<forall>m. fst (track_watch_players_all_stats ok cfg g rows s) = Returns m
          \<longrightarrow> m = sent_between ok s (snd (track_watch_players_all_stats ok cfg g rows s))"
    by (intro allI impI) (rule track_watch_players_counts)
  have b3: "\<forall>m. fst (log_top_and_detect_spikes ok cfg clock mk rows sb s) = Returns m
          \<longrightarrow> m = sent_between ok s (snd (log_top_and_detect_spikes ok cfg clock mk rows sb s))"
    by (intro allI impI) (rule log_top_counts)
  have d2': "log_top_and_detect_spikes ok' cfg clock mk [r] sb ?s2 =
        (Returns 0,
         s\<lparr>clan_metric_history := clan_metric_history s @
              [?snap (length (clan_metric_history s)),
               ?snap (Suc (length (clan_metric_history s)))],
           LAST_CLAN_METRIC_VALUES :=
              (LAST_CLAN_METRIC_VALUES s)((mk, clan_name_raw_of r) \<mapsto> v),
           outbox := outbox s @ [SpikeAlert (clan_name_raw_of r) mk d' c (row_rank r)]\<rparr>)"
    unfolding d2 by simp
  from a1 a2 a3 b1 b2 b3 c1 c2 d1 d2' show ?thesis by (intro conjI)
qed


theorem failed_send_leaves_state_as_successful_send_witness:
  "track_watch_clan_all_stats (\<lambda>i. False) ''looted'' [alpha_row (RInt 200)] (seen_state (Finite 50))
     = (Returns 0,
        (seen_state (Finite 50))
          \<lparr>WATCH_CLAN_LAST_VALUES := [(''looted'', ''alpha'', ''looted_hackablecrate'') \<mapsto> Finite 200],
           outbox := [WatchAlert ''Alpha'' ''looted_hackablecrate'' ''looted'' 150 200 (Rank 1)]\<rparr>)
   \<and> track_watch_clan_all_stats (\<lambda>i. True) ''looted'' [alpha_row (RInt 200)] (seen_state (Finite 50))
     = (Returns 1,
        (seen_state (Finite 50))
          \<lparr>WATCH_CLAN_LAST_VALUES := [(''looted'', ''alpha'', ''looted_hackablecrate'') \<mapsto> Finite 200],
           outbox := [WatchAlert ''Alpha'' ''looted_hackablecrate'' ''looted'' 150 200 (Rank 1)]\<rparr>)
   \<and> track_watch_clan_all_stats (\<lambda>i. True) ''looted'' [alpha_row (RInt 200)]
        ((seen_state (Finite 50))
          \<lparr>WATCH_CLAN_LAST_VALUES := [(''looted'', ''alpha'', ''looted_hackablecrate'') \<mapsto> Finite 200],
           outbox := [WatchAlert ''Alpha'' ''looted_hackablecrate'' ''looted'' 150 200 (Rank 1)]\<rparr>)
     = (Returns 0,
        (seen_state (Finite 50))
          \<lparr>WATCH_CLAN_LAST_VALUES := [(''looted'', ''alpha'', ''looted_hackablecrate'') \<mapsto> Finite 200],
           outbox := [WatchAlert ''Alpha'' ''looted_hackablecrate'' ''looted'' 150 200 (Rank 1)]\<rparr>)
   \<and> log_top_and_detect_spikes (\<lambda>i. False) demo_settings steady_clock ''looted_hackable''
        [alpha_row (RInt 200)] ''looted_hackablecrate'' (seen_state (Finite 50))
     = (Returns 0,
        (seen_state (Finite 50))
          \<lparr>clan_metric_history :=
             [\<lparr>snap_metric_key = ''looted_hackable'', snap_clan_name = ''Alpha'', snap_ts = 1000,
               snap_rank = Some 1, snap_value = Some (Finite 200)\<rparr>],
           LAST_CLAN_METRIC_VALUES := [(''looted_hackable'', ''Alpha'') \<mapsto> Finite 200],
           outbox := [SpikeAlert ''Alpha'' ''looted_hackable'' 150 200 (Rank 1)]\<rparr>)
   \<and> outbox (snd (log_top_and_detect_spikes (\<lambda>i. True) demo_settings steady_clock
        ''looted_hackable'' [alpha_row (RInt 200)] ''looted_hackablecrate''
        ((seen_state (Finite 50))
          \<lparr>clan_metric_history :=
             [\<lparr>snap_metric_key = ''looted_hackable'', snap_clan_name = ''Alpha'', snap_ts = 1000,
               snap_rank = Some 1, snap_value = Some (Finite 200)\<rparr>],
           LAST_CLAN_METRIC_VALUES := [(''looted_hackable'', ''Alpha'') \<mapsto> Finite 200],
           outbox := [SpikeAlert ''Alpha'' ''looted_hackable'' 150 200 (Rank 1)]\<rparr>)))
     = [SpikeAlert ''Alpha'' ''looted_hackable'' 150 200 (Rank 1)]"
proof -
  let ?r = "alpha_row (RInt 200)"
  let ?s = "seen_state (Finite 50)"
  have h1: "clan_name_raw_of ?r \<noteq> []" by (simp add: alpha_row_name)
  have h2: "lower (clan_name_raw_of ?r) \<in> lower ` get_watch_clans ?s"
    by (simp add: alpha_row_name lower_Alpha seen_state_watched)
  note h3 = alpha_row_stats [of "RInt 200"]
  have h4: "to_float (RInt 200) = Value (Finite 200)" by simp
  have h5: "WATCH_CLAN_LAST_VALUES ?s
      (''looted'', lower (clan_name_raw_of ?r), ''looted_hackablecrate'') = Some (Finite 50)"
    by (simp add: alpha_row_name lower_Alpha seen_state_def)
  have h6: "\<not> fle (fsub (Finite 200) (Finite 50)) (Finite 0)" by simp
  have h7: "to_int (fsub (Finite 200) (Finite 50)) = Inr 150" by simp
  have h8: "to_int (Finite 200) = Inr 200" by simp
  have h9: "current_val_of ?r ''looted_hackablecrate'' = Value (Finite 200)"
    by (simp add: alpha_row_val)
  have h10: "rank_to_int (row_rank ?r) = Inr (Some 1)" by (simp add: alpha_row_rank)
  have h11: "case Some (1::int) of None \<Rightarrow> True | Some i \<Rightarrow> sqlite_integer i"
    by (simp add: sqlite_integer_1)
  have h12: "sqlite_integer (steady_clock (length (clan_metric_history ?s)))"
    by (simp add: steady_clock_def sqlite_integer_1000)
  have h13: "sqlite_integer (steady_clock (Suc (length (clan_metric_history ?s))))"
    by (simp add: steady_clock_def sqlite_integer_1000)
  note h14 = ALERT_THRESHOLDS_hackable
  have h15: "LAST_CLAN_METRIC_VALUES ?s (''looted_hackable'', clan_name_raw_of ?r)
      = Some (Finite 50)"
    by (simp add: alpha_row_name seen_state_def)
  have h16: "\<not> flt (fsub (Finite 200) (Finite 50)) (Finite 2)" by simp
  have h17: "lower (clan_name_raw_of ?r) \<noteq> lower (clan_name demo_settings)"
    by (simp add: alpha_row_name lower_Alpha lower_Walobots demo_settings_clan)
  note h18 = h7
  note t1 = failed_send_leaves_state_as_successful_send [where r = ?r and s = ?s
        and k = "''looted_hackablecrate''" and raw_val = "RInt 200" and v = "Finite 200"
        and g = "''looted''" and l = "Finite 50" and d = 150 and c = 200
        and sb = "''looted_hackablecrate''" and rk = "Some 1" and clock = steady_clock
        and mk = "''looted_hackable''" and t = 2 and l' = "Finite 50" and cfg = demo_settings
        and d' = 150 and ok = "\<lambda>i. False" and ok' = "\<lambda>i. True" and rows = "[?r]",
        OF h1 h2 h3 h4 h5 h6 h7 h8 h9 h10 h11 h12 h13 h14 h15 h16 h17 h18]
  note t2 = failed_send_leaves_state_as_successful_send [where r = ?r and s = ?s
        and k = "''looted_hackablecrate''" and raw_val = "RInt 200" and v = "Finite 200"
        and g = "''looted''" and l = "Finite 50" and d = 150 and c = 200
        and sb = "''looted_hackablecrate''" and rk = "Some 1" and clock = steady_clock
        and mk = "''looted_hackable''" and t = 2 and l' = "Finite 50" and cfg = demo_settings
        and d' = 150 and ok = "\<lambda>i. True" and ok' = "\<lambda>i. True" and rows = "[?r]",
        OF h1 h2 h3 h4 h5 h6 h7 h8 h9 h10 h11 h12 h13 h14 h15 h16 h17 h18]
  have m1: "(WATCH_CLAN_LAST_VALUES ?s)((''looted'', ''alpha'', ''looted_hackablecrate'') \<mapsto> Finite 200)
      = [(''looted'', ''alpha'', ''looted_hackablecrate'') \<mapsto> Finite 200]"
    by (simp add: seen_state_def)
  have m2: "(LAST_CLAN_METRIC_VALUES ?s)((''looted_hackable'', ''Alpha'') \<mapsto> Finite 200)
      = [(''looted_hackable'', ''Alpha'') \<mapsto> Finite 200]"
    by (simp add: seen_state_def)
  have m3: "outbox ?s = []" "clan_metric_history ?s = []"
    by (simp_all add: seen_state_def)
  show ?thesis
    using t1 t2
    by (simp add: alpha_row_name alpha_row_rank lower_Alpha m1 m2 m3 steady_clock_def)
qed


section \<open>Claims about the player watch\<close>

subsection \<open>A run on several rows is a run on the first row, then on the others\<close>


lemma build_and_send_watch_players:
  "watch_players (snd (build_and_send ok msg d v n s)) = watch_players s"
  by (rule build_and_send_fields)










end
